theory Spec2Isabelle
  imports Main
begin

section \<open>JavaScript values\<close>

text \<open>
  The handlers read request fields, database results and service results without any
  type check, so all of them are values of one dynamic type. Numbers are restricted to
  integers that print in decimal (a non-integer number is truthy and fails the phone
  pattern, as a negative integer does), strings to characters below 256, objects to plain
  data objects (an association list; the first binding of a key is the one read; the
  members every object inherits are not data and are never read by the handlers).
\<close>

datatype jsval =
    JUndefined
  | JNull
  | JBool bool
  | JNum int
  | JStr string
  | JArr "jsval list"
  | JObj "(string \<times> jsval) list"

text \<open>What a \<^verbatim>\<open>throw\<close> carries: an Error, a TypeError raised by the language itself, or
  multer's MulterError with its \<^verbatim>\<open>code\<close> and its \<^verbatim>\<open>message\<close>.\<close>

datatype exn =
    Error string
  | TypeError string
  | MulterError string string

fun exn_message :: "exn \<Rightarrow> string" where
  "exn_message (Error m) = m"
| "exn_message (TypeError m) = m"
| "exn_message (MulterError c m) = m"

fun exn_code :: "exn \<Rightarrow> jsval" where
  "exn_code (Error m) = JUndefined"
| "exn_code (TypeError m) = JUndefined"
| "exn_code (MulterError c m) = JStr c"

fun instanceof_MulterError :: "exn \<Rightarrow> bool" where
  "instanceof_MulterError (MulterError c m) = True"
| "instanceof_MulterError e = False"

text \<open>\<^verbatim>\<open>!v\<close> is \<open>\<not> truthy v\<close>.\<close>

fun truthy :: "jsval \<Rightarrow> bool" where
  "truthy JUndefined = False"
| "truthy JNull = False"
| "truthy (JBool b) = b"
| "truthy (JNum n) = (n \<noteq> 0)"
| "truthy (JStr s) = (s \<noteq> [])"
| "truthy (JArr xs) = True"
| "truthy (JObj kvs) = True"

text \<open>\<^verbatim>\<open>a || b\<close>\<close>

definition js_or :: "jsval \<Rightarrow> jsval \<Rightarrow> jsval" where
  "js_or a b = (if truthy a then a else b)"

fun isArray :: "jsval \<Rightarrow> bool" where
  "isArray (JArr xs) = True"
| "isArray v = False"

fun elements :: "jsval \<Rightarrow> jsval list" where
  "elements (JArr xs) = xs"
| "elements v = []"

text \<open>Reading a property \<^verbatim>\<open>v.name\<close>. Reading from \<^verbatim>\<open>undefined\<close> or \<^verbatim>\<open>null\<close> throws;
  a primitive has no data property; arrays and strings have \<^verbatim>\<open>length\<close>.\<close>

fun get_prop :: "jsval \<Rightarrow> string \<Rightarrow> exn + jsval" where
  "get_prop JUndefined name = Inl (TypeError (''Cannot read properties of undefined (reading '' @ name @ '')''))"
| "get_prop JNull name = Inl (TypeError (''Cannot read properties of null (reading '' @ name @ '')''))"
| "get_prop (JObj kvs) name = Inr (case map_of kvs name of Some v \<Rightarrow> v | None \<Rightarrow> JUndefined)"
| "get_prop (JArr xs) name = Inr (if name = ''length'' then JNum (int (length xs)) else JUndefined)"
| "get_prop (JStr s) name = Inr (if name = ''length'' then JNum (int (length s)) else JUndefined)"
| "get_prop (JBool b) name = Inr JUndefined"
| "get_prop (JNum n) name = Inr JUndefined"

text \<open>Optional chaining \<^verbatim>\<open>v?.name\<close>: \<^verbatim>\<open>undefined\<close> when \<open>v\<close> is \<^verbatim>\<open>undefined\<close> or \<^verbatim>\<open>null\<close>.\<close>

fun get_prop_opt :: "jsval \<Rightarrow> string \<Rightarrow> jsval" where
  "get_prop_opt JUndefined name = JUndefined"
| "get_prop_opt JNull name = JUndefined"
| "get_prop_opt (JObj kvs) name = (case map_of kvs name of Some v \<Rightarrow> v | None \<Rightarrow> JUndefined)"
| "get_prop_opt (JArr xs) name = (if name = ''length'' then JNum (int (length xs)) else JUndefined)"
| "get_prop_opt (JStr s) name = (if name = ''length'' then JNum (int (length s)) else JUndefined)"
| "get_prop_opt (JBool b) name = JUndefined"
| "get_prop_opt (JNum n) name = JUndefined"

subsection \<open>Conversion to string\<close>

definition digit_char :: "nat \<Rightarrow> char" where
  "digit_char d = char_of (48 + d)"

fun show_nat :: "nat \<Rightarrow> string" where
  "show_nat n = (if n < 10 then [digit_char n] else show_nat (n div 10) @ [digit_char (n mod 10)])"

declare show_nat.simps [simp del]

definition show_int :: "int \<Rightarrow> string" where
  "show_int i = (if i < 0 then CHR ''-'' # show_nat (nat (- i)) else show_nat (nat i))"

text \<open>
  ToString, as a template literal and \<^verbatim>\<open>RegExp.prototype.test\<close> apply it. An array joins
  its elements with commas, \<^verbatim>\<open>null\<close> and \<^verbatim>\<open>undefined\<close> elements giving the empty string.
  A data object gives \<^verbatim>\<open>[object Object]\<close>, unless it has an own \<^verbatim>\<open>toString\<close> property:
  a data value is not callable, the inherited \<^verbatim>\<open>valueOf\<close> returns the object itself, and
  the conversion throws.
\<close>

fun js_to_string :: "jsval \<Rightarrow> exn + string"
  and js_join :: "jsval list \<Rightarrow> exn + string" where
  "js_to_string JUndefined = Inr ''undefined''"
| "js_to_string JNull = Inr ''null''"
| "js_to_string (JBool b) = Inr (if b then ''true'' else ''false'')"
| "js_to_string (JNum n) = Inr (show_int n)"
| "js_to_string (JStr s) = Inr s"
| "js_to_string (JArr xs) = js_join xs"
| "js_to_string (JObj kvs) =
     (if ''toString'' \<in> fst ` set kvs
      then Inl (TypeError ''Cannot convert object to primitive value'')
      else Inr ''[object Object]'')"
| "js_join [] = Inr []"
| "js_join (x # xs) =
     (case (if x = JUndefined \<or> x = JNull then Inr [] else js_to_string x) of
        Inl e \<Rightarrow> Inl e
      | Inr s \<Rightarrow>
          (if xs = [] then Inr s
           else case js_join xs of Inl e \<Rightarrow> Inl e | Inr t \<Rightarrow> Inr (s @ '','' @ t)))"

text \<open>The method call \<^verbatim>\<open>v.toString()\<close>.\<close>

fun call_toString :: "jsval \<Rightarrow> exn + string" where
  "call_toString JUndefined = Inl (TypeError ''Cannot read properties of undefined (reading toString)'')"
| "call_toString JNull = Inl (TypeError ''Cannot read properties of null (reading toString)'')"
| "call_toString (JObj kvs) =
     (if ''toString'' \<in> fst ` set kvs
      then Inl (TypeError ''toString is not a function'')
      else Inr ''[object Object]'')"
| "call_toString v = js_to_string v"

subsection \<open>String methods and the two regular expressions\<close>

definition is_digit :: "char \<Rightarrow> bool" where
  "is_digit c = (48 \<le> (of_char c :: nat) \<and> (of_char c :: nat) \<le> 57)"

text \<open>White space and line terminators that \<^verbatim>\<open>trim\<close> removes, among the characters
  below 256: tab, LF, VT, FF, CR, space and the no-break space.\<close>

definition is_space :: "char \<Rightarrow> bool" where
  "is_space c = ((of_char c :: nat) \<in> {9, 10, 11, 12, 13, 32, 160})"

definition js_trim :: "string \<Rightarrow> string" where
  "js_trim s = rev (dropWhile is_space (rev (dropWhile is_space s)))"

text \<open>\<^verbatim>\<open>v.trim()\<close>: only a string has the method.\<close>

fun call_trim :: "jsval \<Rightarrow> exn + string" where
  "call_trim (JStr s) = Inr (js_trim s)"
| "call_trim JUndefined = Inl (TypeError ''Cannot read properties of undefined (reading trim)'')"
| "call_trim JNull = Inl (TypeError ''Cannot read properties of null (reading trim)'')"
| "call_trim v = Inl (TypeError ''trim is not a function'')"

text \<open>\<^verbatim>\<open>s.replace(/\D/g, '')\<close>\<close>

definition strip_non_digits :: "string \<Rightarrow> string" where
  "strip_non_digits s = filter is_digit s"

text \<open>\<^verbatim>\<open>v.replace(/\D/g, '')\<close>: only a string has the method.\<close>

fun call_replace_non_digits :: "jsval \<Rightarrow> exn + string" where
  "call_replace_non_digits (JStr s) = Inr (strip_non_digits s)"
| "call_replace_non_digits JUndefined = Inl (TypeError ''Cannot read properties of undefined (reading replace)'')"
| "call_replace_non_digits JNull = Inl (TypeError ''Cannot read properties of null (reading replace)'')"
| "call_replace_non_digits v = Inl (TypeError ''replace is not a function'')"

text \<open>\<^verbatim>\<open>/^[0-9]{10,15}$/\<close> on a string: the whole string is 10 to 15 ASCII digits.\<close>

definition phone_pattern :: "string \<Rightarrow> bool" where
  "phone_pattern s = (10 \<le> length s \<and> length s \<le> 15 \<and> list_all is_digit s)"

text \<open>\<^verbatim>\<open>phoneRegex.test(v)\<close> converts its argument to a string first.\<close>

definition phoneRegex_test :: "jsval \<Rightarrow> exn + bool" where
  "phoneRegex_test v = (case js_to_string v of Inl e \<Rightarrow> Inl e | Inr s \<Rightarrow> Inr (phone_pattern s))"

section \<open>The outside world: database, WhatsApp service, file system, clock\<close>

text \<open>
  The modules \<^verbatim>\<open>../config/database\<close> and \<^verbatim>\<open>../services/whatsapp\<close> are not part of the
  sources, so what they answer is a parameter: every call a handler makes to them is
  recorded, in order, in a trace of events, and the environment decides the reply from
  the trace so far and the call. A theorem about a handler holds for every environment.
  Both modules are taken to throw Error objects only. Console output is not modelled,
  except where building its text can throw (a template literal converts its value to a
  string).
\<close>

datatype table = T_accounts | T_activity_logs | T_messages | T_message_templates | T_contacts

text \<open>A value in a statement: a \<^verbatim>\<open>?\<close> placeholder with its parameter, a literal of the
  SQL text, or \<^verbatim>\<open>NOW()\<close>.\<close>

datatype sqlval = Param jsval | Lit jsval | NOW

datatype cond = Eq string sqlval | IsNotNull string

text \<open>The statements of the two route files: the select list, the table, the conjuncts
  of the WHERE clause, the text after it and that text's parameters; the columns set.\<close>

datatype stmt =
    Select string table "cond list" string "jsval list"
  | Insert table "(string \<times> sqlval) list"
  | Update table "(string \<times> sqlval) list" "cond list"
  | Delete table "cond list"

datatype event =
    Query stmt
  | SendTextMessage jsval jsval jsval
  | SendMediaMessage "jsval list"
  | ConnectAccount jsval
  | DisconnectAccount jsval
  | ForceReconnectAccount jsval
  | Unlink jsval
  | Remove jsval
  | NewDate
  | SetTimeout event nat

datatype reply = Threw exn | Returned jsval

type_synonym env = "event list \<Rightarrow> event \<Rightarrow> reply"

text \<open>A computation runs on the trace and returns a value or throws.\<close>

type_synonym 'a io = "event list \<Rightarrow> (exn + 'a) \<times> event list"

definition io_return :: "'a \<Rightarrow> 'a io" where
  "io_return v = (\<lambda>tr. (Inr v, tr))"

definition io_throw :: "exn \<Rightarrow> 'a io" where
  "io_throw e = (\<lambda>tr. (Inl e, tr))"

definition io_bind :: "'a io \<Rightarrow> ('a \<Rightarrow> 'b io) \<Rightarrow> 'b io" where
  "io_bind m f = (\<lambda>tr. case m tr of (Inl e, tr') \<Rightarrow> (Inl e, tr') | (Inr v, tr') \<Rightarrow> f v tr')"

definition try_catch :: "'a io \<Rightarrow> (exn \<Rightarrow> 'a io) \<Rightarrow> 'a io" where
  "try_catch m h = (\<lambda>tr. case m tr of (Inl e, tr') \<Rightarrow> h e tr' | (Inr v, tr') \<Rightarrow> (Inr v, tr'))"

text \<open>A pure step that may throw.\<close>

definition lift :: "exn + 'a \<Rightarrow> 'a io" where
  "lift r = (\<lambda>tr. (r, tr))"

text \<open>An awaited call to the outside: the event is appended to the trace.\<close>

definition call :: "env \<Rightarrow> event \<Rightarrow> jsval io" where
  "call env e = (\<lambda>tr. (case env tr e of Threw x \<Rightarrow> Inl x | Returned v \<Rightarrow> Inr v, tr @ [e]))"

text \<open>A call whose result is not awaited and cannot throw into the handler
  (\<^verbatim>\<open>setTimeout\<close>).\<close>

definition emit :: "event \<Rightarrow> unit io" where
  "emit e = (\<lambda>tr. (Inr (), tr @ [e]))"

section \<open>Requests and responses\<close>

record request =
  req_params :: "string \<Rightarrow> jsval"
  req_query :: "string \<Rightarrow> jsval"
  req_body :: "string \<Rightarrow> jsval"
  req_file :: jsval

record response =
  res_status :: nat
  res_body :: jsval

text \<open>\<^verbatim>\<open>res.status(n).json(v)\<close>; \<^verbatim>\<open>res.json(v)\<close> is \<open>json 200 v\<close>.\<close>

definition json :: "nat \<Rightarrow> jsval \<Rightarrow> response" where
  "json n v = \<lparr>res_status = n, res_body = v\<rparr>"

text \<open>The outermost \<^verbatim>\<open>try { ... } catch (error) { res.status(...).json(...) }\<close> of a
  handler: the handler answers whatever happens.\<close>

definition catch_respond :: "response io \<Rightarrow> (exn \<Rightarrow> response) \<Rightarrow> event list \<Rightarrow> response \<times> event list" where
  "catch_respond m h tr = (case m tr of (Inl e, tr') \<Rightarrow> (h e, tr') | (Inr r, tr') \<Rightarrow> (r, tr'))"

section \<open>Message routes\<close>

subsection \<open>POST /send\<close>

definition post_send_try :: "env \<Rightarrow> request \<Rightarrow> response io" where
  "post_send_try env req =
    (let fromAccountId = req_body req ''fromAccountId'';
         toNumber = req_body req ''toNumber'';
         message = req_body req ''message'';
         scheduledAt = req_body req ''scheduledAt''
     in
     if \<not> truthy fromAccountId \<or> \<not> truthy toNumber \<or> \<not> truthy message then
       io_return (json 400 (JObj [(''error'', JStr ''fromAccountId, toNumber, and message are required'')]))
     else
       io_bind (call env (Query (Select ''*'' T_accounts
                  [Eq ''id'' (Param fromAccountId), Eq ''status'' (Lit (JStr ''connected''))] [] []))) (\<lambda>account.
       io_bind (lift (get_prop account ''length'')) (\<lambda>account_length.
       if \<not> truthy account_length then
         io_return (json 400 (JObj [(''error'', JStr ''Account not found or not connected'')]))
       else
         try_catch
           (io_bind (call env (SendTextMessage fromAccountId toNumber message)) (\<lambda>result.
            io_bind (lift (js_to_string toNumber)) (\<lambda>toNumber_text.
            io_bind (call env (Query (Insert T_activity_logs
                       [(''account_id'', Param fromAccountId),
                        (''action'', Param (JStr ''message_sent'')),
                        (''description'', Param (JStr (''Message sent to '' @ toNumber_text)))]))) (\<lambda>_.
            io_return (json 200 (JObj [(''success'', JBool True),
                                       (''message'', JStr ''Message sent successfully''),
                                       (''result'', result)]))))))
           (\<lambda>waError.
              io_bind (lift (js_to_string toNumber)) (\<lambda>toNumber_text. io_throw waError)))))"

definition post_send :: "env \<Rightarrow> request \<Rightarrow> event list \<Rightarrow> response \<times> event list" where
  "post_send env req =
     catch_respond (post_send_try env req)
       (\<lambda>error. json 500 (JObj [(''error'', JStr (''Failed to send message: '' @ exn_message error))]))"

subsection \<open>POST /send-bulk\<close>

text \<open>\<^verbatim>\<open>recipients.filter(num => !phoneRegex.test(num))\<close>; the test may throw.\<close>

fun filter_invalid :: "jsval list \<Rightarrow> exn + jsval list" where
  "filter_invalid [] = Inr []"
| "filter_invalid (num # nums) =
     (case phoneRegex_test num of
        Inl e \<Rightarrow> Inl e
      | Inr ok \<Rightarrow>
          (case filter_invalid nums of
             Inl e \<Rightarrow> Inl e
           | Inr rest \<Rightarrow> Inr (if \<not> ok then num # rest else rest)))"

text \<open>\<^verbatim>\<open>!message || !message.trim()\<close>\<close>

definition message_blank :: "jsval \<Rightarrow> exn + bool" where
  "message_blank message =
     (if \<not> truthy message then Inr True
      else case call_trim message of Inl e \<Rightarrow> Inl e | Inr s \<Rightarrow> Inr (s = []))"

text \<open>\<^verbatim>\<open>result.key?.id\<close>\<close>

definition result_key_id :: "jsval \<Rightarrow> exn + jsval" where
  "result_key_id result =
     (case get_prop result ''key'' of Inl e \<Rightarrow> Inl e | Inr k \<Rightarrow> Inr (get_prop_opt k ''id''))"

definition insert_message_text :: "jsval \<Rightarrow> jsval \<Rightarrow> jsval \<Rightarrow> stmt" where
  "insert_message_text fromAccountId toNumber message =
     Insert T_messages
       [(''from_account_id'', Param fromAccountId),
        (''to_number'', Param toNumber),
        (''message_text'', Param message),
        (''status'', Param (JStr ''sent'')),
        (''sent_at'', NOW),
        (''message_type'', Param (JStr ''text''))]"

definition success_entry :: "jsval \<Rightarrow> jsval \<Rightarrow> jsval" where
  "success_entry toNumber messageId =
     JObj [(''toNumber'', toNumber), (''success'', JBool True), (''messageId'', messageId)]"

definition failure_entry :: "jsval \<Rightarrow> exn \<Rightarrow> jsval" where
  "failure_entry toNumber sendError =
     JObj [(''toNumber'', toNumber), (''success'', JBool False), (''error'', JStr (exn_message sendError))]"

text \<open>One iteration of the loop: the body of \<^verbatim>\<open>for (const toNumber of recipients)\<close>,
  returning the result list after its \<^verbatim>\<open>push\<close>.\<close>

definition send_bulk_step :: "env \<Rightarrow> jsval \<Rightarrow> jsval \<Rightarrow> jsval \<Rightarrow> jsval list \<Rightarrow> jsval list io" where
  "send_bulk_step env fromAccountId message toNumber results =
     try_catch
       (io_bind (call env (SendTextMessage fromAccountId toNumber message)) (\<lambda>result.
        io_bind (try_catch (call env (Query (insert_message_text fromAccountId toNumber message)))
                   (\<lambda>dbError. io_return JUndefined)) (\<lambda>_.
        io_bind (lift (result_key_id result)) (\<lambda>messageId.
        io_return (results @ [success_entry toNumber messageId])))))
       (\<lambda>sendError. io_return (results @ [failure_entry toNumber sendError]))"

fun send_bulk_loop :: "env \<Rightarrow> jsval \<Rightarrow> jsval \<Rightarrow> jsval list \<Rightarrow> jsval list \<Rightarrow> jsval list io" where
  "send_bulk_loop env fromAccountId message [] results = io_return results"
| "send_bulk_loop env fromAccountId message (toNumber # rest) results =
     io_bind (send_bulk_step env fromAccountId message toNumber results)
       (\<lambda>results'. send_bulk_loop env fromAccountId message rest results')"

text \<open>\<^verbatim>\<open>results.filter(r => r.success).length\<close> and its negation; the entries are the
  objects the loop built.\<close>

definition count_successful :: "jsval list \<Rightarrow> nat" where
  "count_successful results = length (filter (\<lambda>r. truthy (get_prop_opt r ''success'')) results)"

definition count_failed :: "jsval list \<Rightarrow> nat" where
  "count_failed results = length (filter (\<lambda>r. \<not> truthy (get_prop_opt r ''success'')) results)"

definition bulk_summary :: "string \<Rightarrow> jsval list \<Rightarrow> response" where
  "bulk_summary label results =
     (let successful = count_successful results; failed = count_failed results
      in json 200 (JObj
           [(''message'', JStr (label @ show_nat successful @ '' successful, '' @ show_nat failed @ '' failed'')),
            (''successful'', JNum (int successful)),
            (''failed'', JNum (int failed)),
            (''results'', JArr results)]))"

definition post_send_bulk_try :: "env \<Rightarrow> request \<Rightarrow> response io" where
  "post_send_bulk_try env req =
    (let fromAccountId = req_body req ''fromAccountId'';
         recipients = req_body req ''recipients'';
         message = req_body req ''message'';
         scheduledAt = req_body req ''scheduledAt''
     in
     if \<not> truthy fromAccountId \<or> \<not> truthy recipients \<or> \<not> isArray recipients
        \<or> length (elements recipients) = 0 then
       io_return (json 400 (JObj [(''error'', JStr ''Invalid request data'')]))
     else
       io_bind (lift (message_blank message)) (\<lambda>blank.
       if blank then
         io_return (json 400 (JObj [(''error'', JStr ''Message is required'')]))
       else
         io_bind (lift (filter_invalid (elements recipients))) (\<lambda>invalidNumbers.
         if length invalidNumbers > 0 then
           io_return (json 400 (JObj [(''error'', JStr ''Invalid phone numbers''),
                                      (''invalidNumbers'', JArr invalidNumbers)]))
         else if length (elements recipients) > 100 then
           io_return (json 400 (JObj [(''error'', JStr ''Maximum 100 recipients per bulk send'')]))
         else
           io_bind (send_bulk_loop env fromAccountId message (elements recipients) []) (\<lambda>results.
           io_return (bulk_summary ''Bulk send completed: '' results)))))"

definition post_send_bulk :: "env \<Rightarrow> request \<Rightarrow> event list \<Rightarrow> response \<times> event list" where
  "post_send_bulk env req =
     catch_respond (post_send_bulk_try env req)
       (\<lambda>error. json 500 (JObj [(''error'', JStr (exn_message error))]))"

subsection \<open>The upload middleware\<close>

text \<open>
  \<^verbatim>\<open>upload.single('media')\<close> is multer, a library, configured by the route file with a
  size limit and a file filter. A request carries at most one file part. What multer does
  with it: a part under another field name is refused; then the file filter decides from
  the part's headers; then the part is streamed to \<^verbatim>\<open>uploads/temp/\<close> under a name multer
  chooses, and the transfer is aborted (the partial file removed by multer) as soon as the
  bytes read reach the limit: a file of exactly the limit is refused too.
\<close>

record upload_part =
  part_fieldname :: string
  part_originalname :: string
  part_mimetype :: string
  part_size :: nat
  part_filename :: string

definition fileSize :: nat where
  "fileSize = 16 * 1024 * 1024"

definition allowedMimes :: "string list" where
  "allowedMimes =
     [''image/jpeg'', ''image/png'', ''image/gif'', ''image/webp'',
      ''video/mp4'', ''video/avi'', ''video/mov'', ''video/wmv'',
      ''audio/mp3'', ''audio/wav'', ''audio/aac'', ''audio/ogg'',
      ''application/pdf'', ''application/msword'',
      ''application/vnd.openxmlformats-officedocument.wordprocessingml.document'']"

text \<open>\<^verbatim>\<open>cb(null, true)\<close> is \<open>Inr True\<close>, \<^verbatim>\<open>cb(new Error(...), false)\<close> is \<open>Inl\<close>.\<close>

definition fileFilter :: "upload_part \<Rightarrow> exn + bool" where
  "fileFilter file =
     (if part_mimetype file \<in> set allowedMimes then Inr True
      else Inl (Error ''File type not supported''))"

definition stored_file :: "upload_part \<Rightarrow> jsval" where
  "stored_file file =
     JObj [(''fieldname'', JStr (part_fieldname file)),
           (''originalname'', JStr (part_originalname file)),
           (''mimetype'', JStr (part_mimetype file)),
           (''destination'', JStr ''uploads/temp/''),
           (''filename'', JStr (part_filename file)),
           (''path'', JStr (''uploads/temp/'' @ part_filename file)),
           (''size'', JNum (int (part_size file)))]"

text \<open>The value of \<^verbatim>\<open>req.file\<close> after the middleware, or the error it passes on.\<close>

definition upload_single :: "string \<Rightarrow> upload_part option \<Rightarrow> exn + jsval" where
  "upload_single field part =
     (case part of
        None \<Rightarrow> Inr JUndefined
      | Some file \<Rightarrow>
          if part_fieldname file \<noteq> field then Inl (MulterError ''LIMIT_UNEXPECTED_FILE'' ''Unexpected field'')
          else (case fileFilter file of
                  Inl err \<Rightarrow> Inl err
                | Inr include \<Rightarrow>
                    (if \<not> include then Inr JUndefined
                     else if part_size file \<ge> fileSize then Inl (MulterError ''LIMIT_FILE_SIZE'' ''File too large'')
                     else Inr (stored_file file))))"

subsection \<open>POST /send-media\<close>

text \<open>\<^verbatim>\<open>message?.trim()\<close>\<close>

fun opt_trim :: "jsval \<Rightarrow> exn + jsval" where
  "opt_trim JUndefined = Inr JUndefined"
| "opt_trim JNull = Inr JUndefined"
| "opt_trim (JStr s) = Inr (JStr (js_trim s))"
| "opt_trim v = Inl (TypeError ''trim is not a function'')"

text \<open>\<^verbatim>\<open>if (f && f.path) { try { await fs.unlink(f.path) } catch (cleanupError) { } }\<close>;
  \<open>f\<close> is truthy where its property is read.\<close>

definition cleanup_unlink :: "env \<Rightarrow> jsval \<Rightarrow> unit io" where
  "cleanup_unlink env f =
     (if truthy f \<and> truthy (get_prop_opt f ''path'') then
        try_catch (io_bind (call env (Unlink (get_prop_opt f ''path''))) (\<lambda>_. io_return ()))
          (\<lambda>cleanupError. io_return ())
      else io_return ())"

text \<open>The inner \<^verbatim>\<open>try\<close> of the handler, entered once the checks have passed: send, log,
  clean up, answer; its \<^verbatim>\<open>catch\<close> cleans up and throws the error on. \<open>trimmed\<close> is the
  value of \<^verbatim>\<open>message?.trim()\<close>.\<close>

definition send_media_attempt :: "env \<Rightarrow> jsval \<Rightarrow> jsval \<Rightarrow> jsval \<Rightarrow> jsval \<Rightarrow> jsval \<Rightarrow> response io" where
  "send_media_attempt env fromAccountId toNumber message trimmed mediaFile =
     try_catch
       (io_bind
          (if truthy mediaFile \<and> truthy trimmed then
             call env (SendMediaMessage [fromAccountId, toNumber, mediaFile, trimmed])
           else if truthy mediaFile then
             call env (SendMediaMessage [fromAccountId, toNumber, mediaFile])
           else
             io_bind (lift (call_trim message)) (\<lambda>text.
             call env (SendTextMessage fromAccountId toNumber (JStr text)))) (\<lambda>result.
        io_bind (lift (js_to_string toNumber)) (\<lambda>toNumber_text.
        io_bind (call env (Query (Insert T_activity_logs
                   [(''account_id'', Param fromAccountId),
                    (''action'', Param (JStr ''media_message_sent'')),
                    (''description'', Param (JStr (''Media message sent to '' @ toNumber_text)))]))) (\<lambda>_.
        io_bind (cleanup_unlink env mediaFile) (\<lambda>_.
        io_return (json 200 (JObj [(''success'', JBool True),
                                   (''message'', JStr ''Media message sent successfully''),
                                   (''result'', result)])))))))
       (\<lambda>waError. io_bind (cleanup_unlink env mediaFile) (\<lambda>_. io_throw waError))"

definition send_media_try :: "env \<Rightarrow> request \<Rightarrow> response io" where
  "send_media_try env req =
    (let fromAccountId = req_body req ''fromAccountId'';
         toNumber = req_body req ''toNumber'';
         message = req_body req ''message'';
         scheduledAt = req_body req ''scheduledAt'';
         mediaFile = req_file req
     in
     if \<not> truthy fromAccountId \<or> \<not> truthy toNumber then
       io_return (json 400 (JObj [(''error'', JStr ''From account and to number are required'')]))
     else
       io_bind (lift (opt_trim message)) (\<lambda>trimmed.
       if \<not> truthy trimmed \<and> \<not> truthy mediaFile then
         io_return (json 400 (JObj [(''error'', JStr ''Either message or media file is required'')]))
       else
         io_bind (lift (phoneRegex_test toNumber)) (\<lambda>phone_ok.
         if \<not> phone_ok then
           io_return (json 400 (JObj [(''error'', JStr ''Invalid phone number format'')]))
         else
           io_bind (call env (Query (Select ''*'' T_accounts
                      [Eq ''id'' (Param fromAccountId), Eq ''status'' (Lit (JStr ''connected''))] [] []))) (\<lambda>account.
           io_bind (lift (get_prop account ''length'')) (\<lambda>account_length.
           if \<not> truthy account_length then
             io_return (json 400 (JObj [(''error'', JStr ''Account not found or not connected'')]))
           else if truthy scheduledAt then
             io_return (json 501 (JObj [(''error'', JStr ''Scheduled media messages not implemented yet'')]))
           else
             send_media_attempt env fromAccountId toNumber message trimmed mediaFile)))))"

text \<open>The handler's outer \<^verbatim>\<open>catch\<close>: clean up again, then answer.\<close>

definition send_media_catch :: "env \<Rightarrow> request \<Rightarrow> exn \<Rightarrow> response io" where
  "send_media_catch env req error =
     io_bind (cleanup_unlink env (req_file req)) (\<lambda>_.
     if exn_code error = JStr ''LIMIT_FILE_SIZE'' then
       io_return (json 400 (JObj [(''error'', JStr ''File too large. Maximum size is 16MB.'')]))
     else if exn_message error = ''File type not supported'' then
       io_return (json 400 (JObj [(''error'',
         JStr ''File type not supported. Please use images, videos, audio, or documents.'')]))
     else
       io_return (json 500 (JObj [(''error'', JStr (''Failed to send media message: '' @ exn_message error))])))"

text \<open>A computation that ends the request: were a response still missing, nothing would
  be sent.\<close>

definition no_response :: response where
  "no_response = \<lparr>res_status = 0, res_body = JUndefined\<rparr>"

definition finish :: "response io \<Rightarrow> event list \<Rightarrow> response \<times> event list" where
  "finish m tr = (case m tr of (Inl e, tr') \<Rightarrow> (no_response, tr') | (Inr r, tr') \<Rightarrow> (r, tr'))"

definition send_media_handler :: "env \<Rightarrow> request \<Rightarrow> event list \<Rightarrow> response \<times> event list" where
  "send_media_handler env req = finish (try_catch (send_media_try env req) (send_media_catch env req))"

text \<open>The route: the middleware with its own error callback, then the handler.\<close>

definition post_send_media :: "env \<Rightarrow> upload_part option \<Rightarrow> request \<Rightarrow> event list \<Rightarrow> response \<times> event list" where
  "post_send_media env part req tr =
     (case upload_single ''media'' part of
        Inl err \<Rightarrow>
          (if exn_code err = JStr ''LIMIT_FILE_SIZE'' then
             json 400 (JObj [(''error'', JStr ''File too large. Maximum size is 16MB.'')])
           else if exn_message err = ''File type not supported'' then
             json 400 (JObj [(''error'',
               JStr ''File type not supported. Please use images, videos, audio, or documents.'')])
           else if instanceof_MulterError err then
             json 400 (JObj [(''error'', JStr (''Upload error: '' @ exn_message err))])
           else
             json 500 (JObj [(''error'', JStr (''File upload failed: '' @ exn_message err))]),
           tr)
      | Inr f \<Rightarrow> send_media_handler env (req\<lparr>req_file := f\<rparr>) tr)"

subsection \<open>POST /send-bulk-media\<close>

definition insert_message_media :: "jsval \<Rightarrow> jsval \<Rightarrow> jsval \<Rightarrow> jsval \<Rightarrow> string \<Rightarrow> stmt" where
  "insert_message_media fromAccountId toNumber message mediaFile messageType =
     Insert T_messages
       [(''from_account_id'', Param fromAccountId),
        (''to_number'', Param toNumber),
        (''message_text'', Param (js_or message (JStr [])) ),
        (''media_path'', Param (js_or (get_prop_opt mediaFile ''path'') JNull)),
        (''status'', Param (JStr ''sent'')),
        (''sent_at'', NOW),
        (''message_type'', Param (JStr messageType))]"

definition send_bulk_media_step :: "env \<Rightarrow> jsval \<Rightarrow> jsval \<Rightarrow> jsval \<Rightarrow> jsval \<Rightarrow> jsval list \<Rightarrow> jsval list io" where
  "send_bulk_media_step env fromAccountId message mediaFile toNumber results =
     try_catch
       (io_bind
          (if truthy mediaFile then
             io_bind (call env (SendMediaMessage [fromAccountId, toNumber, js_or message (JStr []), mediaFile]))
               (\<lambda>result. io_return (result, ''media''))
           else
             io_bind (call env (SendTextMessage fromAccountId toNumber message))
               (\<lambda>result. io_return (result, ''text''))) (\<lambda>(result, messageType).
        io_bind (try_catch
                   (call env (Query (insert_message_media fromAccountId toNumber message mediaFile messageType)))
                   (\<lambda>dbError. io_return JUndefined)) (\<lambda>_.
        io_bind (lift (result_key_id result)) (\<lambda>messageId.
        io_return (results @ [success_entry toNumber messageId])))))
       (\<lambda>sendError. io_return (results @ [failure_entry toNumber sendError]))"

fun send_bulk_media_loop :: "env \<Rightarrow> jsval \<Rightarrow> jsval \<Rightarrow> jsval \<Rightarrow> jsval list \<Rightarrow> jsval list \<Rightarrow> jsval list io" where
  "send_bulk_media_loop env fromAccountId message mediaFile [] results = io_return results"
| "send_bulk_media_loop env fromAccountId message mediaFile (toNumber # rest) results =
     io_bind (send_bulk_media_step env fromAccountId message mediaFile toNumber results)
       (\<lambda>results'. send_bulk_media_loop env fromAccountId message mediaFile rest results')"

text \<open>\<^verbatim>\<open>if (f?.path) { try { await fs.remove(f.path) } catch (cleanupError) { } }\<close>\<close>

definition cleanup_remove :: "env \<Rightarrow> jsval \<Rightarrow> unit io" where
  "cleanup_remove env f =
     (if truthy (get_prop_opt f ''path'') then
        try_catch (io_bind (call env (Remove (get_prop_opt f ''path''))) (\<lambda>_. io_return ()))
          (\<lambda>cleanupError. io_return ())
      else io_return ())"

text \<open>\<^verbatim>\<open>typeof recipients === 'string' ? JSON.parse(recipients) : recipients\<close>, inside its own
  \<^verbatim>\<open>try\<close>; \<^verbatim>\<open>JSON.parse\<close> is a parameter.\<close>

definition parse_recipients :: "(string \<Rightarrow> exn + jsval) \<Rightarrow> jsval \<Rightarrow> exn + jsval" where
  "parse_recipients JSON_parse recipients =
     (case recipients of JStr s \<Rightarrow> JSON_parse s | _ \<Rightarrow> Inr recipients)"

definition send_bulk_media_try :: "env \<Rightarrow> (string \<Rightarrow> exn + jsval) \<Rightarrow> request \<Rightarrow> response io" where
  "send_bulk_media_try env JSON_parse req =
    (let fromAccountId = req_body req ''fromAccountId'';
         recipients = req_body req ''recipients'';
         message = req_body req ''message'';
         scheduledAt = req_body req ''scheduledAt'';
         mediaFile = req_file req
     in
     if \<not> truthy fromAccountId \<or> \<not> truthy recipients then
       io_return (json 400 (JObj [(''error'', JStr ''Missing required fields'')]))
     else
       case parse_recipients JSON_parse recipients of
         Inl e \<Rightarrow> io_return (json 400 (JObj [(''error'', JStr ''Invalid recipients format'')]))
       | Inr recipientList \<Rightarrow>
           if \<not> isArray recipientList \<or> length (elements recipientList) = 0 then
             io_return (json 400 (JObj [(''error'', JStr ''Recipients must be a non-empty array'')]))
           else
             io_bind (lift (filter_invalid (elements recipientList))) (\<lambda>invalidNumbers.
             if length invalidNumbers > 0 then
               io_return (json 400 (JObj [(''error'', JStr ''Invalid phone numbers''),
                                          (''invalidNumbers'', JArr invalidNumbers)]))
             else if length (elements recipientList) > 50 then
               io_return (json 400 (JObj [(''error'', JStr ''Maximum 50 recipients per bulk media send'')]))
             else
               io_bind (if truthy mediaFile then io_return False else lift (message_blank message)) (\<lambda>nothing_to_send.
               if nothing_to_send then
                 io_return (json 400 (JObj [(''error'', JStr ''Either message or media is required'')]))
               else
                 io_bind (send_bulk_media_loop env fromAccountId message mediaFile (elements recipientList) []) (\<lambda>results.
                 io_bind (cleanup_remove env mediaFile) (\<lambda>_.
                 io_return (bulk_summary ''Bulk media send completed: '' results))))))"

definition send_bulk_media_catch :: "env \<Rightarrow> request \<Rightarrow> exn \<Rightarrow> response io" where
  "send_bulk_media_catch env req error =
     io_bind (cleanup_remove env (req_file req)) (\<lambda>_.
     io_return (json 500 (JObj [(''error'', JStr (exn_message error))])))"

definition send_bulk_media_handler :: "env \<Rightarrow> (string \<Rightarrow> exn + jsval) \<Rightarrow> request \<Rightarrow> event list \<Rightarrow> response \<times> event list" where
  "send_bulk_media_handler env JSON_parse req =
     finish (try_catch (send_bulk_media_try env JSON_parse req) (send_bulk_media_catch env req))"

text \<open>Here the middleware has no error callback: its error goes to the framework's
  default error handler, which answers 500 (the error carries no status of its own).\<close>

definition post_send_bulk_media ::
  "env \<Rightarrow> (string \<Rightarrow> exn + jsval) \<Rightarrow> upload_part option \<Rightarrow> request \<Rightarrow> event list \<Rightarrow> response \<times> event list" where
  "post_send_bulk_media env JSON_parse part req tr =
     (case upload_single ''media'' part of
        Inl err \<Rightarrow> (\<lparr>res_status = 500, res_body = JStr (exn_message err)\<rparr>, tr)
      | Inr f \<Rightarrow> send_bulk_media_handler env JSON_parse (req\<lparr>req_file := f\<rparr>) tr)"

subsection \<open>Message templates\<close>

definition error_500 :: "exn \<Rightarrow> response" where
  "error_500 error = json 500 (JObj [(''error'', JStr (exn_message error))])"

text \<open>\<^verbatim>\<open>v[0]\<close> of a value whose \<^verbatim>\<open>length\<close> has been read.\<close>

fun index0 :: "jsval \<Rightarrow> jsval" where
  "index0 (JArr (x # xs)) = x"
| "index0 (JStr (c # cs)) = JStr [c]"
| "index0 (JObj kvs) = (case map_of kvs ''0'' of Some v \<Rightarrow> v | None \<Rightarrow> JUndefined)"
| "index0 v = JUndefined"

definition get_templates :: "env \<Rightarrow> request \<Rightarrow> event list \<Rightarrow> response \<times> event list" where
  "get_templates env req =
     catch_respond
       (io_bind (call env (Query (Select ''*'' T_message_templates [] ''ORDER BY created_at DESC'' []))) (\<lambda>templates.
        io_return (json 200 templates)))
       error_500"

definition get_template_by_id :: "env \<Rightarrow> request \<Rightarrow> event list \<Rightarrow> response \<times> event list" where
  "get_template_by_id env req =
     catch_respond
       (let id = req_params req ''id'' in
        io_bind (call env (Query (Select ''*'' T_message_templates [Eq ''id'' (Param id)] [] []))) (\<lambda>template.
        io_bind (lift (get_prop template ''length'')) (\<lambda>template_length.
        if \<not> truthy template_length then
          io_return (json 404 (JObj [(''error'', JStr ''Template not found'')]))
        else io_return (json 200 (index0 template)))))
       error_500"

definition template_columns :: "request \<Rightarrow> (string \<times> sqlval) list" where
  "template_columns req =
     [(''name'', Param (req_body req ''name'')),
      (''message_text'', Param (req_body req ''message_text'')),
      (''has_media'', Param (js_or (req_body req ''has_media'') (JBool False))),
      (''media_type'', Param (js_or (req_body req ''media_type'') JNull)),
      (''media_path'', Param (js_or (req_body req ''media_path'') JNull))]"

definition post_templates :: "env \<Rightarrow> request \<Rightarrow> event list \<Rightarrow> response \<times> event list" where
  "post_templates env req =
     catch_respond
       (let name = req_body req ''name''; message_text = req_body req ''message_text'' in
        if \<not> truthy name \<or> \<not> truthy message_text then
          io_return (json 400 (JObj [(''error'', JStr ''Name and message_text are required'')]))
        else
          io_bind (call env (Query (Insert T_message_templates (template_columns req)))) (\<lambda>result.
          io_bind (lift (get_prop result ''insertId'')) (\<lambda>insertId.
          io_return (json 201 (JObj [(''id'', insertId),
                                     (''name'', name),
                                     (''message_text'', message_text),
                                     (''has_media'', req_body req ''has_media''),
                                     (''media_type'', req_body req ''media_type''),
                                     (''media_path'', req_body req ''media_path''),
                                     (''message'', JStr ''Template created successfully'')])))))
       error_500"

definition put_template :: "env \<Rightarrow> request \<Rightarrow> event list \<Rightarrow> response \<times> event list" where
  "put_template env req =
     catch_respond
       (let id = req_params req ''id'';
            name = req_body req ''name''; message_text = req_body req ''message_text'' in
        if \<not> truthy name \<or> \<not> truthy message_text then
          io_return (json 400 (JObj [(''error'', JStr ''Name and message_text are required'')]))
        else
          io_bind (call env (Query (Update T_message_templates
                     (template_columns req @ [(''updated_at'', NOW)]) [Eq ''id'' (Param id)]))) (\<lambda>result.
          io_bind (lift (get_prop result ''affectedRows'')) (\<lambda>affectedRows.
          if affectedRows = JNum 0 then
            io_return (json 404 (JObj [(''error'', JStr ''Template not found'')]))
          else io_return (json 200 (JObj [(''message'', JStr ''Template updated successfully'')])))))
       error_500"

definition delete_template :: "env \<Rightarrow> request \<Rightarrow> event list \<Rightarrow> response \<times> event list" where
  "delete_template env req =
     catch_respond
       (let id = req_params req ''id'' in
        io_bind (call env (Query (Delete T_message_templates [Eq ''id'' (Param id)]))) (\<lambda>result.
        io_bind (lift (get_prop result ''affectedRows'')) (\<lambda>affectedRows.
        if affectedRows = JNum 0 then
          io_return (json 404 (JObj [(''error'', JStr ''Template not found'')]))
        else io_return (json 200 (JObj [(''message'', JStr ''Template deleted successfully'')])))))
       error_500"

subsection \<open>Contacts\<close>

definition get_contacts :: "env \<Rightarrow> request \<Rightarrow> event list \<Rightarrow> response \<times> event list" where
  "get_contacts env req =
     catch_respond
       (let group_name = req_query req ''group_name'' in
        io_bind (call env (Query (Select ''*'' T_contacts
                   ([Eq ''is_active'' (Lit (JNum 1))]
                    @ (if truthy group_name then [Eq ''group_name'' (Param group_name)] else []))
                   ''ORDER BY created_at DESC'' []))) (\<lambda>contacts.
        io_return (json 200 contacts)))
       error_500"

definition get_contact_groups :: "env \<Rightarrow> request \<Rightarrow> event list \<Rightarrow> response \<times> event list" where
  "get_contact_groups env req =
     catch_respond
       (io_bind (call env (Query (Select ''group_name, COUNT(*) as contact_count'' T_contacts
                   [Eq ''is_active'' (Lit (JNum 1)), IsNotNull ''group_name'']
                   ''GROUP BY group_name ORDER BY group_name'' []))) (\<lambda>groups.
        io_return (json 200 groups)))
       error_500"

definition post_contacts :: "env \<Rightarrow> request \<Rightarrow> event list \<Rightarrow> response \<times> event list" where
  "post_contacts env req =
     catch_respond
       (let name = req_body req ''name''; phone = req_body req ''phone'';
            group_name = req_body req ''group_name'' in
        if \<not> truthy name \<or> \<not> truthy phone then
          io_return (json 400 (JObj [(''error'', JStr ''Name and phone are required'')]))
        else
          io_bind (lift (call_replace_non_digits phone)) (\<lambda>cleanPhone.
          io_bind (call env (Query (Insert T_contacts
                     [(''name'', Param name),
                      (''phone'', Param (JStr cleanPhone)),
                      (''group_name'', Param (js_or group_name JNull))]))) (\<lambda>result.
          io_bind (lift (get_prop result ''insertId'')) (\<lambda>insertId.
          io_return (json 201 (JObj [(''id'', insertId),
                                     (''name'', name),
                                     (''phone'', JStr cleanPhone),
                                     (''group_name'', group_name),
                                     (''message'', JStr ''Contact added successfully'')]))))))
       error_500"

text \<open>The counters and the error list of the bulk import.\<close>

record import_state =
  successCount :: nat
  errorCount :: nat
  errors :: "string list"

text \<open>One iteration of \<^verbatim>\<open>for (const contact of contacts)\<close>. The destructuring throws on
  \<^verbatim>\<open>null\<close>; the \<^verbatim>\<open>catch\<close> reads \<^verbatim>\<open>contact.name\<close> again and may throw itself.
  \<^verbatim>\<open>JSON.stringify\<close> is a parameter.\<close>

definition contacts_bulk_step :: "env \<Rightarrow> (jsval \<Rightarrow> string) \<Rightarrow> jsval \<Rightarrow> import_state \<Rightarrow> import_state io" where
  "contacts_bulk_step env JSON_stringify contact st =
     try_catch
       (io_bind (lift (get_prop contact ''name'')) (\<lambda>name.
        io_bind (lift (get_prop contact ''phone'')) (\<lambda>phone.
        io_bind (lift (get_prop contact ''group_name'')) (\<lambda>group_name.
        if \<not> truthy name \<or> \<not> truthy phone then
          io_return (st\<lparr>errors := errors st @ [''Contact missing name or phone: '' @ JSON_stringify contact],
                        errorCount := errorCount st + 1\<rparr>)
        else
          io_bind (lift (call_toString phone)) (\<lambda>phone_text.
          let cleanPhone = strip_non_digits phone_text in
          io_bind (call env (Query (Insert T_contacts
                     [(''name'', Param name),
                      (''phone'', Param (JStr cleanPhone)),
                      (''group_name'', Param (js_or group_name JNull))]))) (\<lambda>_.
          io_return (st\<lparr>successCount := successCount st + 1\<rparr>)))))))
       (\<lambda>err.
        io_bind (lift (get_prop contact ''name'')) (\<lambda>contact_name.
        io_bind (lift (js_to_string contact_name)) (\<lambda>name_text.
        io_return (st\<lparr>errors := errors st @ [''Error adding contact '' @ name_text @ '': '' @ exn_message err],
                      errorCount := errorCount st + 1\<rparr>))))"

fun contacts_bulk_loop :: "env \<Rightarrow> (jsval \<Rightarrow> string) \<Rightarrow> jsval list \<Rightarrow> import_state \<Rightarrow> import_state io" where
  "contacts_bulk_loop env JSON_stringify [] st = io_return st"
| "contacts_bulk_loop env JSON_stringify (contact # rest) st =
     io_bind (contacts_bulk_step env JSON_stringify contact st)
       (\<lambda>st'. contacts_bulk_loop env JSON_stringify rest st')"

definition post_contacts_bulk :: "env \<Rightarrow> (jsval \<Rightarrow> string) \<Rightarrow> request \<Rightarrow> event list \<Rightarrow> response \<times> event list" where
  "post_contacts_bulk env JSON_stringify req =
     catch_respond
       (let contacts = req_body req ''contacts'' in
        if \<not> isArray contacts \<or> length (elements contacts) = 0 then
          io_return (json 400 (JObj [(''error'', JStr ''Contacts array is required'')]))
        else
          io_bind (contacts_bulk_loop env JSON_stringify (elements contacts)
                     \<lparr>successCount = 0, errorCount = 0, errors = []\<rparr>) (\<lambda>st.
          io_return (json 200 (JObj [(''message'', JStr ''Bulk import completed''),
                                     (''success_count'', JNum (int (successCount st))),
                                     (''error_count'', JNum (int (errorCount st))),
                                     (''errors'', JArr (map JStr (take 10 (errors st))))]))))
       error_500"

definition put_contact :: "env \<Rightarrow> request \<Rightarrow> event list \<Rightarrow> response \<times> event list" where
  "put_contact env req =
     catch_respond
       (let id = req_params req ''id'';
            name = req_body req ''name''; phone = req_body req ''phone'';
            group_name = req_body req ''group_name''; is_active = req_body req ''is_active'' in
        if \<not> truthy name \<or> \<not> truthy phone then
          io_return (json 400 (JObj [(''error'', JStr ''Name and phone are required'')]))
        else
          io_bind (lift (call_replace_non_digits phone)) (\<lambda>cleanPhone.
          io_bind (call env (Query (Update T_contacts
                     [(''name'', Param name),
                      (''phone'', Param (JStr cleanPhone)),
                      (''group_name'', Param (js_or group_name JNull)),
                      (''is_active'', Param (if is_active \<noteq> JUndefined then is_active else JBool True))]
                     [Eq ''id'' (Param id)]))) (\<lambda>result.
          io_bind (lift (get_prop result ''affectedRows'')) (\<lambda>affectedRows.
          if affectedRows = JNum 0 then
            io_return (json 404 (JObj [(''error'', JStr ''Contact not found'')]))
          else io_return (json 200 (JObj [(''message'', JStr ''Contact updated successfully'')]))))))
       error_500"

definition delete_contact :: "env \<Rightarrow> request \<Rightarrow> event list \<Rightarrow> response \<times> event list" where
  "delete_contact env req =
     catch_respond
       (let id = req_params req ''id'' in
        io_bind (call env (Query (Delete T_contacts [Eq ''id'' (Param id)]))) (\<lambda>result.
        io_bind (lift (get_prop result ''affectedRows'')) (\<lambda>affectedRows.
        if affectedRows = JNum 0 then
          io_return (json 404 (JObj [(''error'', JStr ''Contact not found'')]))
        else io_return (json 200 (JObj [(''message'', JStr ''Contact deleted successfully'')])))))
       error_500"

section \<open>Account routes\<close>

definition account_columns :: string where
  "account_columns = ''id, name, phone, status, qr_code, created_at, updated_at, last_connected''"

definition get_accounts :: "env \<Rightarrow> request \<Rightarrow> event list \<Rightarrow> response \<times> event list" where
  "get_accounts env req =
     catch_respond
       (io_bind (call env (Query (Select account_columns T_accounts [] ''ORDER BY created_at DESC'' []))) (\<lambda>accounts.
        io_return (json 200 accounts)))
       error_500"

definition get_account_by_id :: "env \<Rightarrow> request \<Rightarrow> event list \<Rightarrow> response \<times> event list" where
  "get_account_by_id env req =
     catch_respond
       (let id = req_params req ''id'' in
        io_bind (call env (Query (Select account_columns T_accounts [Eq ''id'' (Param id)] [] []))) (\<lambda>account.
        io_bind (lift (get_prop account ''length'')) (\<lambda>account_length.
        if \<not> truthy account_length then
          io_return (json 404 (JObj [(''error'', JStr ''Account not found'')]))
        else io_return (json 200 (index0 account)))))
       error_500"

text \<open>Create new account. \<open>new_Date\<close> gives the values of the two \<^verbatim>\<open>new Date()\<close>
  expressions of the response.\<close>

definition post_accounts :: "env \<Rightarrow> (nat \<Rightarrow> jsval) \<Rightarrow> request \<Rightarrow> event list \<Rightarrow> response \<times> event list" where
  "post_accounts env new_Date req =
     catch_respond
       (let name = req_body req ''name''; phone = req_body req ''phone'' in
        if \<not> truthy name then
          io_return (json 400 (JObj [(''error'', JStr ''Name is required'')]))
        else
          io_bind
            (if truthy phone then
               io_bind (call env (Query (Select ''id'' T_accounts [Eq ''phone'' (Param phone)] [] []))) (\<lambda>existingAccount.
               io_bind (lift (get_prop existingAccount ''length'')) (\<lambda>existing_length.
               io_return (truthy existing_length)))
             else io_return False) (\<lambda>phone_exists.
          if phone_exists then
            io_return (json 400 (JObj [(''error'', JStr ''Phone number already exists'')]))
          else
            io_bind (call env (Query (Insert T_accounts
                       [(''name'', Param name),
                        (''phone'', Param phone),
                        (''status'', Lit (JStr ''disconnected''))]))) (\<lambda>result.
            io_bind (lift (get_prop result ''insertId'')) (\<lambda>accountId.
            io_bind (call env (Query (Insert T_activity_logs
                       [(''account_id'', Param accountId),
                        (''action'', Param (JStr ''created'')),
                        (''description'', Param (JStr ''Account created''))]))) (\<lambda>_.
            io_return (json 201 (JObj [(''id'', accountId),
                                       (''name'', name),
                                       (''phone'', phone),
                                       (''status'', JStr ''disconnected''),
                                       (''qr_code'', JNull),
                                       (''created_at'', new_Date 0),
                                       (''updated_at'', new_Date 1),
                                       (''last_connected'', JNull),
                                       (''message'', JStr ''Account created successfully'')])))))))
       error_500"

definition post_connect :: "env \<Rightarrow> request \<Rightarrow> event list \<Rightarrow> response \<times> event list" where
  "post_connect env req =
     catch_respond
       (let id = req_params req ''id'' in
        io_bind (call env (Query (Select ''*'' T_accounts [Eq ''id'' (Param id)] [] []))) (\<lambda>account.
        io_bind (lift (get_prop account ''length'')) (\<lambda>account_length.
        if \<not> truthy account_length then
          io_return (json 404 (JObj [(''error'', JStr ''Account not found'')]))
        else
          io_bind (call env (ConnectAccount id)) (\<lambda>_.
          io_return (json 200 (JObj [(''message'', JStr ''Connection initiated. Please scan QR code.'')]))))))
       error_500"

text \<open>Fresh reconnect. The \<^verbatim>\<open>setTimeout\<close> callback (a \<^verbatim>\<open>connectAccount\<close> inside its own
  \<^verbatim>\<open>try\<close>) runs a second later, outside the request; the handler only registers it.\<close>

definition post_fresh_connect :: "env \<Rightarrow> request \<Rightarrow> event list \<Rightarrow> response \<times> event list" where
  "post_fresh_connect env req =
     catch_respond
       (let id = req_params req ''id'' in
        io_bind (call env (Query (Select ''*'' T_accounts [Eq ''id'' (Param id)] [] []))) (\<lambda>account.
        io_bind (lift (get_prop account ''length'')) (\<lambda>account_length.
        if \<not> truthy account_length then
          io_return (json 404 (JObj [(''error'', JStr ''Account not found'')]))
        else
          io_bind (call env (DisconnectAccount id)) (\<lambda>_.
          io_bind (call env (Query (Update T_accounts
                     [(''status'', Lit (JStr ''connecting'')),
                      (''qr_code'', Lit JNull),
                      (''last_connected'', Lit JNull),
                      (''updated_at'', NOW)]
                     [Eq ''id'' (Param id)]))) (\<lambda>_.
          io_bind (call env (Query (Insert T_activity_logs
                     [(''account_id'', Param id),
                      (''action'', Param (JStr ''fresh_reconnect'')),
                      (''description'', Param (JStr ''Fresh reconnection initiated - starting new session''))]))) (\<lambda>_.
          io_bind (emit (SetTimeout (ConnectAccount id) 1000)) (\<lambda>_.
          io_return (json 200 (JObj [(''success'', JBool True),
                                     (''message'', JStr ''Fresh connection initiated. QR code will be generated shortly.'')])))))))))
       error_500"

definition post_force_reconnect :: "env \<Rightarrow> request \<Rightarrow> event list \<Rightarrow> response \<times> event list" where
  "post_force_reconnect env req =
     catch_respond
       (let id = req_params req ''id'' in
        io_bind (call env (Query (Select ''*'' T_accounts [Eq ''id'' (Param id)] [] []))) (\<lambda>account.
        io_bind (lift (get_prop account ''length'')) (\<lambda>account_length.
        if \<not> truthy account_length then
          io_return (json 404 (JObj [(''error'', JStr ''Account not found'')]))
        else
          io_bind (call env (Query (Insert T_activity_logs
                     [(''account_id'', Param id),
                      (''action'', Param (JStr ''force_reconnect'')),
                      (''description'', Param (JStr ''Force reconnection initiated - generating new QR code''))]))) (\<lambda>_.
          io_bind (call env (ForceReconnectAccount id)) (\<lambda>_.
          io_return (json 200 (JObj [(''message'', JStr ''Force reconnection initiated. New QR code will be generated.''),
                                     (''note'', JStr ''All session files have been cleared for fresh authentication.'')])))))))
       (\<lambda>error. json 500 (JObj [(''error'', JStr ''Force reconnection failed''),
                                (''message'', JStr (exn_message error))]))"

definition post_disconnect :: "env \<Rightarrow> request \<Rightarrow> event list \<Rightarrow> response \<times> event list" where
  "post_disconnect env req =
     catch_respond
       (let id = req_params req ''id'' in
        io_bind (call env (DisconnectAccount id)) (\<lambda>_.
        io_return (json 200 (JObj [(''message'', JStr ''Account disconnected successfully'')]))))
       error_500"

definition put_account :: "env \<Rightarrow> request \<Rightarrow> event list \<Rightarrow> response \<times> event list" where
  "put_account env req =
     catch_respond
       (let id = req_params req ''id'';
            name = req_body req ''name''; phone = req_body req ''phone'' in
        if \<not> truthy name \<or> \<not> truthy phone then
          io_return (json 400 (JObj [(''error'', JStr ''Name and phone are required'')]))
        else
          io_bind (call env (Query (Update T_accounts
                     [(''name'', Param name), (''phone'', Param phone), (''updated_at'', NOW)]
                     [Eq ''id'' (Param id)]))) (\<lambda>result.
          io_bind (lift (get_prop result ''affectedRows'')) (\<lambda>affectedRows.
          if affectedRows = JNum 0 then
            io_return (json 404 (JObj [(''error'', JStr ''Account not found'')]))
          else
            io_bind (lift (js_to_string name)) (\<lambda>name_text.
            io_bind (lift (js_to_string phone)) (\<lambda>phone_text.
            io_bind (call env (Query (Insert T_activity_logs
                       [(''account_id'', Param id),
                        (''action'', Param (JStr ''updated'')),
                        (''description'', Param (JStr (''Account details updated to '' @ name_text @ '' - '' @ phone_text)))]))) (\<lambda>_.
            io_return (json 200 (JObj [(''message'', JStr ''Account updated successfully'')]))))))))
       error_500"

definition delete_account :: "env \<Rightarrow> request \<Rightarrow> event list \<Rightarrow> response \<times> event list" where
  "delete_account env req =
     catch_respond
       (let id = req_params req ''id'' in
        io_bind (try_catch (call env (DisconnectAccount id)) (\<lambda>err. io_return JUndefined)) (\<lambda>_.
        io_bind (call env (Query (Delete T_accounts [Eq ''id'' (Param id)]))) (\<lambda>result.
        io_bind (lift (get_prop result ''affectedRows'')) (\<lambda>affectedRows.
        if affectedRows = JNum 0 then
          io_return (json 404 (JObj [(''error'', JStr ''Account not found'')]))
        else io_return (json 200 (JObj [(''message'', JStr ''Account deleted successfully'')]))))))
       error_500"

text \<open>\<^verbatim>\<open>parseInt(v) || d\<close>; \<^verbatim>\<open>parseInt\<close> is a parameter, \<open>None\<close> its NaN.\<close>

definition parse_or :: "(jsval \<Rightarrow> int option) \<Rightarrow> jsval \<Rightarrow> int \<Rightarrow> jsval" where
  "parse_or parseInt v d = (case parseInt v of None \<Rightarrow> JNum d | Some n \<Rightarrow> if n = 0 then JNum d else JNum n)"

definition get_account_logs :: "env \<Rightarrow> (jsval \<Rightarrow> int option) \<Rightarrow> request \<Rightarrow> event list \<Rightarrow> response \<times> event list" where
  "get_account_logs env parseInt req =
     catch_respond
       (let id = req_params req ''id'';
            limit = parse_or parseInt (req_query req ''limit'') 50;
            offset = parse_or parseInt (req_query req ''offset'') 0 in
        io_bind (call env (Query (Select ''*'' T_activity_logs [Eq ''account_id'' (Param id)]
                   ''ORDER BY created_at DESC LIMIT ? OFFSET ?'' [limit, offset]))) (\<lambda>logs.
        io_return (json 200 logs)))
       error_500"

section \<open>The public interface\<close>

datatype route =
    POST_send
  | POST_send_media
  | GET_templates
  | GET_templates_id
  | POST_templates
  | PUT_templates_id
  | DELETE_templates_id
  | GET_contacts
  | GET_contacts_groups
  | POST_contacts
  | POST_contacts_bulk
  | PUT_contacts_id
  | DELETE_contacts_id
  | POST_send_bulk
  | POST_send_bulk_media
  | GET_accounts
  | GET_accounts_id
  | POST_accounts
  | POST_accounts_id_connect
  | POST_accounts_id_fresh_connect
  | POST_accounts_id_force_reconnect
  | POST_accounts_id_disconnect
  | PUT_accounts_id
  | DELETE_accounts_id
  | GET_accounts_id_logs

text \<open>The built-ins that are parameters of the model.\<close>

record runtime =
  JSON_parse :: "string \<Rightarrow> exn + jsval"
  JSON_stringify :: "jsval \<Rightarrow> string"
  parseInt :: "jsval \<Rightarrow> int option"
  new_Date :: "nat \<Rightarrow> jsval"

text \<open>Every route of the two routers. \<open>part\<close> is the file part of a multipart request
  and is read by the two upload routes only.\<close>

fun handle :: "env \<Rightarrow> runtime \<Rightarrow> route \<Rightarrow> upload_part option \<Rightarrow> request \<Rightarrow> event list \<Rightarrow> response \<times> event list" where
  "handle env rt POST_send part req = post_send env req"
| "handle env rt POST_send_media part req = post_send_media env part req"
| "handle env rt GET_templates part req = get_templates env req"
| "handle env rt GET_templates_id part req = get_template_by_id env req"
| "handle env rt POST_templates part req = post_templates env req"
| "handle env rt PUT_templates_id part req = put_template env req"
| "handle env rt DELETE_templates_id part req = delete_template env req"
| "handle env rt GET_contacts part req = get_contacts env req"
| "handle env rt GET_contacts_groups part req = get_contact_groups env req"
| "handle env rt POST_contacts part req = post_contacts env req"
| "handle env rt POST_contacts_bulk part req = post_contacts_bulk env (JSON_stringify rt) req"
| "handle env rt PUT_contacts_id part req = put_contact env req"
| "handle env rt DELETE_contacts_id part req = delete_contact env req"
| "handle env rt POST_send_bulk part req = post_send_bulk env req"
| "handle env rt POST_send_bulk_media part req = post_send_bulk_media env (JSON_parse rt) part req"
| "handle env rt GET_accounts part req = get_accounts env req"
| "handle env rt GET_accounts_id part req = get_account_by_id env req"
| "handle env rt POST_accounts part req = post_accounts env (new_Date rt) req"
| "handle env rt POST_accounts_id_connect part req = post_connect env req"
| "handle env rt POST_accounts_id_fresh_connect part req = post_fresh_connect env req"
| "handle env rt POST_accounts_id_force_reconnect part req = post_force_reconnect env req"
| "handle env rt POST_accounts_id_disconnect part req = post_disconnect env req"
| "handle env rt PUT_accounts_id part req = put_account env req"
| "handle env rt DELETE_accounts_id part req = delete_account env req"
| "handle env rt GET_accounts_id_logs part req = get_account_logs env (parseInt rt) req"

section \<open>Observations\<close>

subsection \<open>Delivery attempts and validation\<close>

text \<open>A delivery attempt is a call of one of the service's two send functions.\<close>

fun is_send :: "event \<Rightarrow> bool" where
  "is_send (SendTextMessage fromAccountId toNumber message) = True"
| "is_send (SendMediaMessage args) = True"
| "is_send e = False"

text \<open>The recipient an entry of the \<^verbatim>\<open>results\<close> array reports on.\<close>

definition entry_toNumber :: "jsval \<Rightarrow> jsval" where
  "entry_toNumber r = get_prop_opt r ''toNumber''"

text \<open>A bulk request passes validation when none of the handler's checks before the loop
  answers or throws.\<close>

definition send_bulk_passes :: "request \<Rightarrow> bool" where
  "send_bulk_passes req =
     (truthy (req_body req ''fromAccountId'')
      \<and> isArray (req_body req ''recipients'')
      \<and> elements (req_body req ''recipients'') \<noteq> []
      \<and> message_blank (req_body req ''message'') = Inr False
      \<and> filter_invalid (elements (req_body req ''recipients'')) = Inr []
      \<and> length (elements (req_body req ''recipients'')) \<le> 100)"

text \<open>The same for the bulk media route, with the file the middleware stored (or
  \<^verbatim>\<open>undefined\<close>) and the parsed recipient list.\<close>

definition send_bulk_media_passes ::
  "(string \<Rightarrow> exn + jsval) \<Rightarrow> upload_part option \<Rightarrow> request \<Rightarrow> jsval \<Rightarrow> jsval list \<Rightarrow> bool" where
  "send_bulk_media_passes parse part req mediaFile recipientList =
     (upload_single ''media'' part = Inr mediaFile
      \<and> truthy (req_body req ''fromAccountId'')
      \<and> truthy (req_body req ''recipients'')
      \<and> parse_recipients parse (req_body req ''recipients'') = Inr (JArr recipientList)
      \<and> recipientList \<noteq> []
      \<and> filter_invalid recipientList = Inr []
      \<and> length recipientList \<le> 50
      \<and> (truthy mediaFile \<or> message_blank (req_body req ''message'') = Inr False))"

text \<open>The call the bulk media loop makes for one recipient.\<close>

definition bulk_media_send :: "jsval \<Rightarrow> jsval \<Rightarrow> jsval \<Rightarrow> jsval \<Rightarrow> event" where
  "bulk_media_send fromAccountId message mediaFile toNumber =
     (if truthy mediaFile
      then SendMediaMessage [fromAccountId, toNumber, js_or message (JStr []), mediaFile]
      else SendTextMessage fromAccountId toNumber message)"

text \<open>A recipient that fails the phone-number check.\<close>

definition fails_phone_check :: "jsval \<Rightarrow> bool" where
  "fails_phone_check num = (phoneRegex_test num = Inr False)"

text \<open>A message that is missing or blank: falsy, or a string that trims to nothing.\<close>

fun missing_or_blank :: "jsval \<Rightarrow> bool" where
  "missing_or_blank (JStr s) = (js_trim s = [])"
| "missing_or_blank message = (\<not> truthy message)"

subsection \<open>The statements the handlers issue\<close>

text \<open>The account lookup of the send routes.\<close>

definition select_connected_account :: "jsval \<Rightarrow> event" where
  "select_connected_account fromAccountId =
     Query (Select ''*'' T_accounts
       [Eq ''id'' (Param fromAccountId), Eq ''status'' (Lit (JStr ''connected''))] [] [])"

text \<open>The activity log row of a sent message.\<close>

definition log_message_sent :: "jsval \<Rightarrow> string \<Rightarrow> event" where
  "log_message_sent fromAccountId toNumber_text =
     Query (Insert T_activity_logs
       [(''account_id'', Param fromAccountId),
        (''action'', Param (JStr ''message_sent'')),
        (''description'', Param (JStr (''Message sent to '' @ toNumber_text)))])"

text \<open>The statements of account creation.\<close>

definition select_account_by_phone :: "jsval \<Rightarrow> event" where
  "select_account_by_phone phone = Query (Select ''id'' T_accounts [Eq ''phone'' (Param phone)] [] [])"

definition insert_account :: "jsval \<Rightarrow> jsval \<Rightarrow> event" where
  "insert_account name phone =
     Query (Insert T_accounts
       [(''name'', Param name), (''phone'', Param phone), (''status'', Lit (JStr ''disconnected''))])"

definition log_account_created :: "jsval \<Rightarrow> event" where
  "log_account_created accountId =
     Query (Insert T_activity_logs
       [(''account_id'', Param accountId),
        (''action'', Param (JStr ''created'')),
        (''description'', Param (JStr ''Account created''))])"

definition select_account_by_id :: "jsval \<Rightarrow> event" where
  "select_account_by_id account_id = Query (Select ''*'' T_accounts [Eq ''id'' (Param account_id)] [] [])"

text \<open>The body of the 201 response of account creation.\<close>

definition created_account :: "jsval \<Rightarrow> jsval \<Rightarrow> jsval \<Rightarrow> (nat \<Rightarrow> jsval) \<Rightarrow> jsval" where
  "created_account accountId name phone clock =
     JObj [(''id'', accountId),
           (''name'', name),
           (''phone'', phone),
           (''status'', JStr ''disconnected''),
           (''qr_code'', JNull),
           (''created_at'', clock 0),
           (''updated_at'', clock 1),
           (''last_connected'', JNull),
           (''message'', JStr ''Account created successfully'')]"

text \<open>The lookup account creation makes first: none when no phone is supplied.\<close>

definition phone_lookup :: "jsval \<Rightarrow> event list" where
  "phone_lookup phone = (if truthy phone then [select_account_by_phone phone] else [])"

text \<open>The statements that write a contact row.\<close>

definition insert_contact :: "jsval \<Rightarrow> string \<Rightarrow> jsval \<Rightarrow> event" where
  "insert_contact name cleanPhone group_name =
     Query (Insert T_contacts
       [(''name'', Param name),
        (''phone'', Param (JStr cleanPhone)),
        (''group_name'', Param (js_or group_name JNull))])"

definition update_contact :: "jsval \<Rightarrow> jsval \<Rightarrow> string \<Rightarrow> jsval \<Rightarrow> jsval \<Rightarrow> event" where
  "update_contact contact_id name cleanPhone group_name is_active =
     Query (Update T_contacts
       [(''name'', Param name),
        (''phone'', Param (JStr cleanPhone)),
        (''group_name'', Param (js_or group_name JNull)),
        (''is_active'', Param (if is_active \<noteq> JUndefined then is_active else JBool True))]
       [Eq ''id'' (Param contact_id)])"

text \<open>The column of a statement's column list.\<close>

fun inserted_column :: "event \<Rightarrow> string \<Rightarrow> sqlval option" where
  "inserted_column (Query (Insert t cols)) name = map_of cols name"
| "inserted_column e name = None"

text \<open>A media request reaches the scheduling test when the middleware stored a file or found
  none, the handler's checks before the test pass, and the account lookup returns a row.\<close>

definition send_media_passes :: "env \<Rightarrow> event list \<Rightarrow> upload_part option \<Rightarrow> request \<Rightarrow> bool" where
  "send_media_passes env tr part req =
     (\<exists>f t account n.
        upload_single ''media'' part = Inr f
        \<and> truthy (req_body req ''fromAccountId'')
        \<and> truthy (req_body req ''toNumber'')
        \<and> opt_trim (req_body req ''message'') = Inr t
        \<and> (truthy t \<or> truthy f)
        \<and> phoneRegex_test (req_body req ''toNumber'') = Inr True
        \<and> env tr (select_connected_account (req_body req ''fromAccountId'')) = Returned account
        \<and> get_prop account ''length'' = Inr n
        \<and> truthy n)"

subsection \<open>Properties of every event a computation adds to the trace\<close>

text \<open>\<open>emits P m\<close>: whatever the trace before, \<open>m\<close> only appends to it, and every event it
  appends satisfies \<open>P\<close>.\<close>

definition emits :: "(event \<Rightarrow> bool) \<Rightarrow> (event list \<Rightarrow> 'a \<times> event list) \<Rightarrow> bool" where
  "emits P m = (\<forall>tr. \<exists>new. snd (m tr) = tr @ new \<and> list_all P new)"

text \<open>\<open>returns m v\<close>: \<open>m\<close> can return \<open>v\<close>.\<close>

definition returns :: "'a io \<Rightarrow> 'a \<Rightarrow> bool" where
  "returns m v = (\<exists>tr. fst (m tr) = Inr v)"

text \<open>A statement that inserts into, updates or deletes from the messages table.\<close>

fun writes_messages :: "event \<Rightarrow> bool" where
  "writes_messages (Query (Insert t cols)) = (t = T_messages)"
| "writes_messages (Query (Update t cols conds)) = (t = T_messages)"
| "writes_messages (Query (Delete t conds)) = (t = T_messages)"
| "writes_messages e = False"

text \<open>The value a statement writes to the phone column of a contact row, if it writes one.\<close>

fun contact_phone_written :: "event \<Rightarrow> sqlval option" where
  "contact_phone_written (Query (Insert t cols)) = (if t = T_contacts then map_of cols ''phone'' else None)"
| "contact_phone_written (Query (Update t cols conds)) = (if t = T_contacts then map_of cols ''phone'' else None)"
| "contact_phone_written e = None"

text \<open>A statement that writes a contact row.\<close>

fun writes_contact_row :: "event \<Rightarrow> bool" where
  "writes_contact_row (Query (Insert t cols)) = (t = T_contacts)"
| "writes_contact_row (Query (Update t cols conds)) = (t = T_contacts)"
| "writes_contact_row e = False"

text \<open>A written value that is a string of decimal digits.\<close>

fun digits_only :: "sqlval option \<Rightarrow> bool" where
  "digits_only (Some (Param (JStr s))) = list_all is_digit s"
| "digits_only v = False"

text \<open>The phone a contact row is written with is a string of decimal digits.\<close>

definition contact_phone_clean :: "event \<Rightarrow> bool" where
  "contact_phone_clean e = (\<not> writes_contact_row e \<or> digits_only (contact_phone_written e))"

text \<open>A delivery attempt registered for later.\<close>

fun deferred_send :: "event \<Rightarrow> bool" where
  "deferred_send (SetTimeout e ms) = (is_send e \<or> deferred_send e)"
| "deferred_send e = False"

definition safe :: "event \<Rightarrow> bool" where
  "safe e = (contact_phone_clean e \<and> \<not> deferred_send e)"

definition quiet :: "event \<Rightarrow> bool" where
  "quiet e = (safe e \<and> \<not> writes_messages e)"

subsection \<open>Replies and deliveries\<close>

text \<open>Each event of a continuation of the trace with the reply the environment gave to it.\<close>

fun replies :: "env \<Rightarrow> event list \<Rightarrow> event list \<Rightarrow> (event \<times> reply) list" where
  "replies env tr [] = []"
| "replies env tr (e # es) = (e, env tr e) # replies env (tr @ [e]) es"

text \<open>The recipient of a delivery attempt that returned.\<close>

fun delivered_to :: "event \<times> reply \<Rightarrow> jsval list" where
  "delivered_to (SendTextMessage fromAccountId toNumber message, Returned v) = [toNumber]"
| "delivered_to (SendMediaMessage (fromAccountId # toNumber # rest), Returned v) = [toNumber]"
| "delivered_to x = []"

text \<open>The recipients successfully delivered to in a continuation of the trace, in order.\<close>

definition delivered :: "env \<Rightarrow> event list \<Rightarrow> event list \<Rightarrow> jsval list" where
  "delivered env tr new = concat (map delivered_to (replies env tr new))"

subsection \<open>Sample requests and environments\<close>

definition no_fields :: "string \<Rightarrow> jsval" where
  "no_fields name = JUndefined"

definition request_with :: "(string \<Rightarrow> jsval) \<Rightarrow> request" where
  "request_with b = \<lparr>req_params = no_fields, req_query = no_fields, req_body = b, req_file = JUndefined\<rparr>"

definition request_for :: "string \<Rightarrow> request" where
  "request_for account_id = \<lparr>req_params = no_fields(''id'' := JStr account_id), req_query = no_fields,
                      req_body = no_fields, req_file = JUndefined\<rparr>"

text \<open>\<open>with_scheduledAt v req\<close> is \<open>req\<close> with the body field \<^verbatim>\<open>scheduledAt\<close> set to \<open>v\<close>.\<close>

definition with_scheduledAt :: "jsval \<Rightarrow> request \<Rightarrow> request" where
  "with_scheduledAt v req = req\<lparr>req_body := (req_body req)(''scheduledAt'' := v)\<rparr>"

text \<open>A service that cannot reach one number, and a database that accepts everything
  and knows account 1.\<close>

fun sample_env :: env where
  "sample_env tr (SendTextMessage fromAccountId toNumber message) =
     (if toNumber = JStr ''6281234567890'' then Threw (Error ''not on WhatsApp'')
      else Returned (JObj [(''key'', JObj [(''id'', JStr ''3EB0'')])]))"
| "sample_env tr (SendMediaMessage args) = Returned (JObj [(''key'', JObj [(''id'', JStr ''3EB1'')])])"
| "sample_env tr (Query (Select columns t conds rest ps)) = Returned (JArr [JObj [(''id'', JNum 1)]])"
| "sample_env tr (Query q) = Returned (JObj [(''insertId'', JNum 7), (''affectedRows'', JNum 1)])"
| "sample_env tr e = Returned JUndefined"

text \<open>A database with no account at all.\<close>

fun empty_env :: env where
  "empty_env tr (Query (Select columns t conds rest ps)) = Returned (JArr [])"
| "empty_env tr (Query q) = Returned (JObj [(''insertId'', JNum 1), (''affectedRows'', JNum 0)])"
| "empty_env tr e = Returned JUndefined"

definition rejecting_parse :: "string \<Rightarrow> exn + jsval" where
  "rejecting_parse s = Inl (Error ''Unexpected token'')"

definition sample_stringify :: "jsval \<Rightarrow> string" where
  "sample_stringify v = ''{}''"

definition sample_clock :: "nat \<Rightarrow> jsval" where
  "sample_clock k = JStr ''2025-01-01T00:00:00.000Z''"

definition sample_runtime :: runtime where
  "sample_runtime =
     \<lparr>JSON_parse = rejecting_parse, JSON_stringify = (\<lambda>v. ''{}''), parseInt = (\<lambda>v. None),
      new_Date = sample_clock\<rparr>"

definition sample_part :: upload_part where
  "sample_part =
     \<lparr>part_fieldname = ''media'', part_originalname = ''photo.png'', part_mimetype = ''image/png'',
      part_size = 2048, part_filename = ''9f2c''\<rparr>"

definition big_text_part :: upload_part where
  "big_text_part =
     \<lparr>part_fieldname = ''media'', part_originalname = ''dump.txt'', part_mimetype = ''text/plain'',
      part_size = 20000000, part_filename = ''77aa''\<rparr>"

definition big_video_part :: upload_part where
  "big_video_part =
     \<lparr>part_fieldname = ''media'', part_originalname = ''clip.mp4'', part_mimetype = ''video/mp4'',
      part_size = 20000000, part_filename = ''77ab''\<rparr>"

definition small_text_part :: upload_part where
  "small_text_part =
     \<lparr>part_fieldname = ''media'', part_originalname = ''notes.txt'', part_mimetype = ''text/plain'',
      part_size = 100, part_filename = ''77ac''\<rparr>"

definition send_body :: "string \<Rightarrow> jsval" where
  "send_body =
     no_fields(''fromAccountId'' := JNum 1,
               ''toNumber'' := JStr ''6289876543210'',
               ''message'' := JStr ''hello'')"

definition bulk_body :: "string \<Rightarrow> jsval" where
  "bulk_body =
     no_fields(''fromAccountId'' := JNum 1,
               ''recipients'' := JArr [JStr ''6281234567890'', JStr ''6289876543210''],
               ''message'' := JStr ''hello'')"

definition number_message_body :: "string \<Rightarrow> jsval" where
  "number_message_body =
     no_fields(''fromAccountId'' := JNum 1,
               ''recipients'' := JArr [JStr ''12345''],
               ''message'' := JNum 123)"

definition bad_recipient_body :: "string \<Rightarrow> jsval" where
  "bad_recipient_body =
     no_fields(''fromAccountId'' := JNum 1,
               ''recipients'' := JArr [JStr ''6281234567890'', JStr ''12345'', JStr ''+62 812''],
               ''message'' := JStr ''hello'')"

definition media_body :: "string \<Rightarrow> jsval" where
  "media_body =
     no_fields(''fromAccountId'' := JStr ''1'',
               ''toNumber'' := JStr ''6289876543210'',
               ''message'' := JStr ''hi'')"

definition invalid_phone_media_body :: "string \<Rightarrow> jsval" where
  "invalid_phone_media_body =
     no_fields(''fromAccountId'' := JStr ''1'',
               ''toNumber'' := JStr ''12345'',
               ''message'' := JStr ''hi'')"

definition invalid_bulk_media_body :: "string \<Rightarrow> jsval" where
  "invalid_bulk_media_body =
     no_fields(''fromAccountId'' := JStr ''1'',
               ''recipients'' := JArr [JStr ''12345''],
               ''message'' := JStr ''hi'')"

definition scheduled_invalid_request :: request where
  "scheduled_invalid_request = with_scheduledAt (JStr ''2030-01-01T09:00'') (request_with invalid_phone_media_body)"

definition scheduled_request :: request where
  "scheduled_request = with_scheduledAt (JStr ''2030-01-01T09:00'') (request_with media_body)"

definition new_account_body :: "string \<Rightarrow> jsval" where
  "new_account_body = no_fields(''name'' := JStr ''Sales'', ''phone'' := JStr ''6289876543210'')"

definition nameless_body :: "string \<Rightarrow> jsval" where
  "nameless_body = no_fields(''phone'' := JStr ''6289876543210'')"

definition contact_body :: "string \<Rightarrow> jsval" where
  "contact_body = no_fields(''name'' := JStr ''Ana'', ''phone'' := JStr ''+62 812-345'')"

definition contacts_bulk_body :: "string \<Rightarrow> jsval" where
  "contacts_bulk_body =
     no_fields(''contacts'' := JArr [JObj [(''name'', JStr ''Ana''), (''phone'', JStr ''+62 812-345'')]])"

definition contact_update_request :: request where
  "contact_update_request =
     \<lparr>req_params = no_fields(''id'' := JStr ''5''), req_query = no_fields,
      req_body = contact_body, req_file = JUndefined\<rparr>"

section \<open>Rules for the events of a computation\<close>

lemma emits_return: "emits P (io_return v)"
  by (simp add: emits_def io_return_def)

lemma emits_throw: "emits P (io_throw e)"
  by (simp add: emits_def io_throw_def)

lemma emits_lift: "emits P (lift r)"
  by (simp add: emits_def lift_def)

lemma emits_call: "P e \<Longrightarrow> emits P (call env e)"
  by (simp add: emits_def call_def)

lemma emits_emit: "P e \<Longrightarrow> emits P (emit e)"
  by (simp add: emits_def emit_def)

lemma emits_bind:
  assumes m: "emits P m" and f: "\<And>v. returns m v \<Longrightarrow> emits P (f v)"
  shows "emits P (io_bind m f)"
  unfolding emits_def
proof
  fix tr
  obtain new1 where n1: "snd (m tr) = tr @ new1" "list_all P new1"
    using m unfolding emits_def by blast
  show "\<exists>new. snd (io_bind m f tr) = tr @ new \<and> list_all P new"
  proof (cases "fst (m tr)")
    case (Inl e)
    then have "io_bind m f tr = (Inl e, tr @ new1)"
      using n1(1) by (cases "m tr") (simp add: io_bind_def)
    then show ?thesis using n1(2) by auto
  next
    case (Inr v)
    then have "returns m v" unfolding returns_def by blast
    then obtain new2 where n2: "snd (f v (tr @ new1)) = (tr @ new1) @ new2" "list_all P new2"
      using f unfolding emits_def by blast
    have "io_bind m f tr = f v (tr @ new1)"
      using Inr n1(1) by (cases "m tr") (simp add: io_bind_def)
    then have "snd (io_bind m f tr) = tr @ (new1 @ new2)" using n2(1) by simp
    moreover have "list_all P (new1 @ new2)" using n1(2) n2(2) by simp
    ultimately show ?thesis by blast
  qed
qed

lemma emits_try_catch:
  assumes m: "emits P m" and h: "\<And>e. emits P (h e)"
  shows "emits P (try_catch m h)"
  unfolding emits_def
proof
  fix tr
  obtain new1 where n1: "snd (m tr) = tr @ new1" "list_all P new1"
    using m unfolding emits_def by blast
  show "\<exists>new. snd (try_catch m h tr) = tr @ new \<and> list_all P new"
  proof (cases "fst (m tr)")
    case (Inr v)
    then have "try_catch m h tr = (Inr v, tr @ new1)"
      using n1(1) by (cases "m tr") (simp add: try_catch_def)
    then show ?thesis using n1(2) by auto
  next
    case (Inl e)
    obtain new2 where n2: "snd (h e (tr @ new1)) = (tr @ new1) @ new2" "list_all P new2"
      using h unfolding emits_def by blast
    have "try_catch m h tr = h e (tr @ new1)"
      using Inl n1(1) by (cases "m tr") (simp add: try_catch_def)
    then have "snd (try_catch m h tr) = tr @ (new1 @ new2)" using n2(1) by simp
    moreover have "list_all P (new1 @ new2)" using n1(2) n2(2) by simp
    ultimately show ?thesis by blast
  qed
qed

lemma emits_if:
  "(c \<Longrightarrow> emits P a) \<Longrightarrow> (\<not> c \<Longrightarrow> emits P b) \<Longrightarrow> emits P (if c then a else b)"
  by simp

lemma emits_case_sum:
  "(\<And>a. x = Inl a \<Longrightarrow> emits P (f a)) \<Longrightarrow> (\<And>b. x = Inr b \<Longrightarrow> emits P (g b)) \<Longrightarrow> emits P (case x of Inl a \<Rightarrow> f a | Inr b \<Rightarrow> g b)"
  by (cases x) simp_all

lemma emits_case_prod:
  "(\<And>a b. emits P (f a b)) \<Longrightarrow> emits P (case x of (a, b) \<Rightarrow> f a b)"
  by (cases x) simp

lemma emits_catch_respond: "emits P m \<Longrightarrow> emits P (catch_respond m h)"
  unfolding emits_def catch_respond_def
  by (auto split: prod.splits sum.splits) (metis snd_conv)+

lemma emits_finish: "emits P m \<Longrightarrow> emits P (finish m)"
  unfolding emits_def finish_def
  by (auto split: prod.splits sum.splits) (metis snd_conv)+

lemma emits_weaken: "emits P m \<Longrightarrow> (\<And>e. P e \<Longrightarrow> Q e) \<Longrightarrow> emits Q m"
  unfolding emits_def by (metis (mono_tags, lifting) list.pred_mono_strong)

lemmas emits_rules =
  emits_return emits_throw emits_lift emits_call emits_emit emits_bind emits_try_catch
  emits_if emits_case_sum emits_case_prod emits_catch_respond emits_finish

lemma returns_lift: "returns (lift r) v \<Longrightarrow> r = Inr v"
  by (simp add: returns_def lift_def)

lemma replace_non_digits_digits: "call_replace_non_digits v = Inr s \<Longrightarrow> list_all is_digit s"
  by (cases v) (auto simp: strip_non_digits_def list_all_iff)

lemma strip_non_digits_digits: "list_all is_digit (strip_non_digits s)"
  by (simp add: strip_non_digits_def list_all_iff)

lemmas run_defs = catch_respond_def finish_def try_catch_def io_bind_def io_return_def io_throw_def
  lift_def call_def emit_def json_def Let_def

lemmas sample_defs = request_with_def no_fields_def sample_part_def upload_single_def fileFilter_def
  allowedMimes_def fileSize_def stored_file_def

lemmas phone_defs = phoneRegex_test_def phone_pattern_def is_digit_def js_trim_def is_space_def
  message_blank_def

section \<open>What each route adds to the trace\<close>

lemmas event_props = quiet_def safe_def contact_phone_clean_def

lemma quiet_safe: "emits quiet m \<Longrightarrow> emits safe m"
  by (erule emits_weaken) (simp add: quiet_def)

lemma post_send_quiet: "emits quiet (post_send env req)"
  unfolding post_send_def post_send_try_def Let_def
  by (intro emits_rules; simp add: event_props)

lemma cleanup_unlink_quiet: "emits quiet (cleanup_unlink env f)"
  unfolding cleanup_unlink_def
  by (intro emits_rules; simp add: event_props)

lemma cleanup_remove_safe: "emits safe (cleanup_remove env f)"
  unfolding cleanup_remove_def
  by (intro emits_rules; simp add: event_props)

lemma send_media_handler_quiet: "emits quiet (send_media_handler env req)"
  unfolding send_media_handler_def send_media_try_def send_media_attempt_def send_media_catch_def Let_def
  by (intro emits_rules cleanup_unlink_quiet; simp add: event_props)

lemma post_send_media_quiet: "emits quiet (post_send_media env part req)"
proof (cases "upload_single ''media'' part")
  case (Inl err)
  then show ?thesis by (simp add: emits_def post_send_media_def)
next
  case (Inr f)
  then have "post_send_media env part req = send_media_handler env (req\<lparr>req_file := f\<rparr>)"
    by (simp add: post_send_media_def fun_eq_iff)
  then show ?thesis using send_media_handler_quiet by simp
qed

lemma templates_quiet:
  "emits quiet (get_templates env req)"
  "emits quiet (get_template_by_id env req)"
  "emits quiet (post_templates env req)"
  "emits quiet (put_template env req)"
  "emits quiet (delete_template env req)"
  unfolding get_templates_def get_template_by_id_def post_templates_def put_template_def
    delete_template_def Let_def
  by (intro emits_rules; simp add: event_props)+

lemma contacts_read_quiet:
  "emits quiet (get_contacts env req)"
  "emits quiet (get_contact_groups env req)"
  "emits quiet (delete_contact env req)"
  unfolding get_contacts_def get_contact_groups_def delete_contact_def Let_def
  by (intro emits_rules; simp add: event_props)+

lemma post_contacts_quiet: "emits quiet (post_contacts env req)"
  unfolding post_contacts_def Let_def
  by (intro emits_rules; simp add: event_props; drule returns_lift; erule replace_non_digits_digits)

lemma put_contact_quiet: "emits quiet (put_contact env req)"
  unfolding put_contact_def Let_def
  by (intro emits_rules; simp add: event_props; drule returns_lift; erule replace_non_digits_digits)

lemma contacts_bulk_step_quiet: "emits quiet (contacts_bulk_step env stringify contact st)"
  unfolding contacts_bulk_step_def Let_def
  by (intro emits_rules; simp add: event_props strip_non_digits_digits)

lemma contacts_bulk_loop_quiet: "emits quiet (contacts_bulk_loop env stringify cs st)"
  by (induction cs arbitrary: st) (auto intro!: emits_return emits_bind contacts_bulk_step_quiet)

lemma post_contacts_bulk_quiet: "emits quiet (post_contacts_bulk env stringify req)"
  unfolding post_contacts_bulk_def Let_def
  by (intro emits_rules contacts_bulk_loop_quiet; simp add: event_props)

lemma send_bulk_step_safe: "emits safe (send_bulk_step env f m n results)"
  unfolding send_bulk_step_def insert_message_text_def
  by (intro emits_rules; simp add: event_props)

lemma send_bulk_loop_safe: "emits safe (send_bulk_loop env f m ns results)"
  by (induction ns arbitrary: results) (auto intro!: emits_return emits_bind send_bulk_step_safe)

lemma post_send_bulk_safe: "emits safe (post_send_bulk env req)"
  unfolding post_send_bulk_def post_send_bulk_try_def Let_def
  by (intro emits_rules send_bulk_loop_safe; simp add: event_props)

lemma send_bulk_media_step_safe: "emits safe (send_bulk_media_step env f m mf n results)"
  unfolding send_bulk_media_step_def insert_message_media_def
  by (intro emits_rules; simp add: event_props)

lemma send_bulk_media_loop_safe: "emits safe (send_bulk_media_loop env f m mf ns results)"
  by (induction ns arbitrary: results) (auto intro!: emits_return emits_bind send_bulk_media_step_safe)

lemma send_bulk_media_handler_safe: "emits safe (send_bulk_media_handler env parse req)"
  unfolding send_bulk_media_handler_def send_bulk_media_try_def send_bulk_media_catch_def Let_def
  by (intro emits_rules send_bulk_media_loop_safe cleanup_remove_safe; simp add: event_props)

lemma post_send_bulk_media_safe: "emits safe (post_send_bulk_media env parse part req)"
proof (cases "upload_single ''media'' part")
  case (Inl err)
  then show ?thesis by (simp add: emits_def post_send_bulk_media_def)
next
  case (Inr f)
  then have "post_send_bulk_media env parse part req = send_bulk_media_handler env parse (req\<lparr>req_file := f\<rparr>)"
    by (simp add: post_send_bulk_media_def fun_eq_iff)
  then show ?thesis using send_bulk_media_handler_safe by simp
qed

lemma accounts_quiet:
  "emits quiet (get_accounts env req)"
  "emits quiet (get_account_by_id env req)"
  "emits quiet (post_accounts env clock req)"
  "emits quiet (post_connect env req)"
  "emits quiet (post_fresh_connect env req)"
  "emits quiet (post_force_reconnect env req)"
  "emits quiet (post_disconnect env req)"
  "emits quiet (put_account env req)"
  "emits quiet (delete_account env req)"
  "emits quiet (get_account_logs env pint req)"
  unfolding get_accounts_def get_account_by_id_def post_accounts_def post_connect_def
    post_fresh_connect_def post_force_reconnect_def post_disconnect_def put_account_def
    delete_account_def get_account_logs_def Let_def
  by (intro emits_rules; simp add: event_props)+

text \<open>Every route but the two bulk send routes is quiet; those two are safe.\<close>

lemma handle_quiet:
  "route \<noteq> POST_send_bulk \<Longrightarrow> route \<noteq> POST_send_bulk_media \<Longrightarrow> emits quiet (handle env rt route part req)"
  by (cases route)
     (simp_all add: post_send_quiet post_send_media_quiet templates_quiet contacts_read_quiet
        post_contacts_quiet put_contact_quiet post_contacts_bulk_quiet accounts_quiet)

lemma handle_safe: "emits safe (handle env rt route part req)"
proof (cases "route = POST_send_bulk \<or> route = POST_send_bulk_media")
  case True
  then show ?thesis using post_send_bulk_safe post_send_bulk_media_safe by auto
next
  case False
  then show ?thesis using handle_quiet quiet_safe by blast
qed

section \<open>Bulk sending\<close>

lemma send_bulk_step_result:
  "\<exists>entry new. send_bulk_step env f m n results tr = (Inr (results @ [entry]), tr @ new)
     \<and> entry_toNumber entry = n
     \<and> filter is_send new = [SendTextMessage f n m]"
  by (auto simp: send_bulk_step_def try_catch_def io_bind_def call_def io_return_def lift_def
       success_entry_def failure_entry_def insert_message_text_def entry_toNumber_def
       split: prod.splits sum.splits reply.splits)

lemma send_bulk_loop_result:
  "\<exists>results' new. send_bulk_loop env f m ns results tr = (Inr results', tr @ new)
     \<and> map entry_toNumber results' = map entry_toNumber results @ ns
     \<and> filter is_send new = map (\<lambda>n. SendTextMessage f n m) ns"
proof (induction ns arbitrary: results tr)
  case Nil
  then show ?case by (simp add: io_return_def)
next
  case (Cons n ns)
  obtain entry new1 where s:
    "send_bulk_step env f m n results tr = (Inr (results @ [entry]), tr @ new1)"
    "entry_toNumber entry = n"
    "filter is_send new1 = [SendTextMessage f n m]"
    using send_bulk_step_result by blast
  obtain results' new2 where l:
    "send_bulk_loop env f m ns (results @ [entry]) (tr @ new1) = (Inr results', (tr @ new1) @ new2)"
    "map entry_toNumber results' = map entry_toNumber (results @ [entry]) @ ns"
    "filter is_send new2 = map (\<lambda>n. SendTextMessage f n m) ns"
    using Cons.IH by blast
  have "send_bulk_loop env f m (n # ns) results tr = (Inr results', tr @ (new1 @ new2))"
    using s(1) l(1) by (simp add: io_bind_def)
  moreover have "map entry_toNumber results' = map entry_toNumber results @ (n # ns)"
    using l(2) s(2) by simp
  moreover have "filter is_send (new1 @ new2) = map (\<lambda>n. SendTextMessage f n m) (n # ns)"
    using s(3) l(3) by simp
  ultimately show ?case by blast
qed

lemma send_bulk_media_step_result:
  "\<exists>entry new. send_bulk_media_step env f m mf n results tr = (Inr (results @ [entry]), tr @ new)
     \<and> entry_toNumber entry = n
     \<and> filter is_send new = [bulk_media_send f m mf n]"
  by (auto simp: send_bulk_media_step_def try_catch_def io_bind_def call_def io_return_def lift_def
       success_entry_def failure_entry_def insert_message_media_def entry_toNumber_def
       bulk_media_send_def
       split: prod.splits sum.splits reply.splits)

lemma send_bulk_media_loop_result:
  "\<exists>results' new. send_bulk_media_loop env f m mf ns results tr = (Inr results', tr @ new)
     \<and> map entry_toNumber results' = map entry_toNumber results @ ns
     \<and> filter is_send new = map (bulk_media_send f m mf) ns"
proof (induction ns arbitrary: results tr)
  case Nil
  then show ?case by (simp add: io_return_def)
next
  case (Cons n ns)
  obtain entry new1 where s:
    "send_bulk_media_step env f m mf n results tr = (Inr (results @ [entry]), tr @ new1)"
    "entry_toNumber entry = n"
    "filter is_send new1 = [bulk_media_send f m mf n]"
    using send_bulk_media_step_result by blast
  obtain results' new2 where l:
    "send_bulk_media_loop env f m mf ns (results @ [entry]) (tr @ new1) = (Inr results', (tr @ new1) @ new2)"
    "map entry_toNumber results' = map entry_toNumber (results @ [entry]) @ ns"
    "filter is_send new2 = map (bulk_media_send f m mf) ns"
    using Cons.IH by blast
  have "send_bulk_media_loop env f m mf (n # ns) results tr = (Inr results', tr @ (new1 @ new2))"
    using s(1) l(1) by (simp add: io_bind_def)
  moreover have "map entry_toNumber results' = map entry_toNumber results @ (n # ns)"
    using l(2) s(2) by simp
  moreover have "filter is_send (new1 @ new2) = map (bulk_media_send f m mf) (n # ns)"
    using s(3) l(3) by simp
  ultimately show ?case by blast
qed

lemma isArray_truthy: "isArray v \<Longrightarrow> truthy v"
  by (cases v) auto

lemma counts_cover: "count_successful results + count_failed results = length results"
  unfolding count_successful_def count_failed_def by (rule sum_length_filter_compl)

lemma cleanup_remove_result:
  "\<exists>new. cleanup_remove env f tr = (Inr (), tr @ new) \<and> filter is_send new = []"
  by (auto simp: cleanup_remove_def try_catch_def io_bind_def call_def io_return_def
       split: prod.splits sum.splits reply.splits)

lemma post_send_bulk_passes:
  assumes "send_bulk_passes req"
  shows "\<exists>results new.
           post_send_bulk env req tr = (bulk_summary ''Bulk send completed: '' results, tr @ new)
           \<and> map entry_toNumber results = elements (req_body req ''recipients'')
           \<and> filter is_send new =
               map (\<lambda>n. SendTextMessage (req_body req ''fromAccountId'') n (req_body req ''message''))
                 (elements (req_body req ''recipients''))"
proof -
  obtain results new where l:
    "send_bulk_loop env (req_body req ''fromAccountId'') (req_body req ''message'')
       (elements (req_body req ''recipients'')) [] tr = (Inr results, tr @ new)"
    "map entry_toNumber results = map entry_toNumber [] @ elements (req_body req ''recipients'')"
    "filter is_send new =
       map (\<lambda>n. SendTextMessage (req_body req ''fromAccountId'') n (req_body req ''message''))
         (elements (req_body req ''recipients''))"
    using send_bulk_loop_result by blast
  have "post_send_bulk env req tr = (bulk_summary ''Bulk send completed: '' results, tr @ new)"
    using assms l(1) isArray_truthy[of "req_body req ''recipients''"]
    by (simp add: post_send_bulk_def post_send_bulk_try_def catch_respond_def io_bind_def
         lift_def io_return_def send_bulk_passes_def Let_def)
  then show ?thesis using l(2,3) by auto
qed

lemma post_send_bulk_media_passes:
  assumes "send_bulk_media_passes parse part req mediaFile recipientList"
  shows "\<exists>results new.
           post_send_bulk_media env parse part req tr =
             (bulk_summary ''Bulk media send completed: '' results, tr @ new)
           \<and> map entry_toNumber results = recipientList
           \<and> filter is_send new =
               map (bulk_media_send (req_body req ''fromAccountId'') (req_body req ''message'') mediaFile)
                 recipientList"
proof -
  let ?f = "req_body req ''fromAccountId''" and ?m = "req_body req ''message''"
  obtain results new where l:
    "send_bulk_media_loop env ?f ?m mediaFile recipientList [] tr = (Inr results, tr @ new)"
    "map entry_toNumber results = map entry_toNumber [] @ recipientList"
    "filter is_send new = map (bulk_media_send ?f ?m mediaFile) recipientList"
    using send_bulk_media_loop_result by blast
  obtain new2 where c:
    "cleanup_remove env mediaFile (tr @ new) = (Inr (), (tr @ new) @ new2)" "filter is_send new2 = []"
    using cleanup_remove_result by blast
  have "post_send_bulk_media env parse part req tr =
          (bulk_summary ''Bulk media send completed: '' results, tr @ (new @ new2))"
    using assms l(1) c(1)
    by (auto simp: post_send_bulk_media_def send_bulk_media_handler_def send_bulk_media_try_def
         finish_def try_catch_def io_bind_def lift_def io_return_def send_bulk_media_passes_def Let_def)
  moreover have "filter is_send (new @ new2) = map (bulk_media_send ?f ?m mediaFile) recipientList"
    using l(3) c(2) by simp
  ultimately show ?thesis using l(2) by auto
qed

lemma show_nat_one: "show_nat (Suc 0) = ''1''"
proof -
  have "char_of (49::nat) = CHR ''1''" by code_simp
  then show ?thesis by (simp add: show_nat.simps digit_char_def)
qed

lemma bulk_summary_body:
  "res_status (bulk_summary label results) = 200"
  "get_prop_opt (res_body (bulk_summary label results)) ''results'' = JArr results"
  "get_prop_opt (res_body (bulk_summary label results)) ''successful'' = JNum (int (count_successful results))"
  "get_prop_opt (res_body (bulk_summary label results)) ''failed'' = JNum (int (count_failed results))"
  by (simp_all add: bulk_summary_def json_def Let_def)

text \<open>
  C1. A bulk request that passes validation is answered 200 with a body whose
  \<^verbatim>\<open>results\<close> array has one entry per recipient, in input order; one delivery attempt is
  made per recipient, in list order, whatever the service answers to the earlier ones (it
  may throw for any of them); and the \<^verbatim>\<open>successful\<close> and \<^verbatim>\<open>failed\<close> counts of the body
  are the numbers of entries with and without \<^verbatim>\<open>success\<close> and add up to the number of
  recipients. The same holds for the bulk media route over its parsed recipient list.
\<close>

theorem bulk_one_result_per_recipient:
  "(send_bulk_passes req \<longrightarrow>
      (\<exists>results new.
         snd (post_send_bulk env req tr) = tr @ new
         \<and> filter is_send new =
             map (\<lambda>n. SendTextMessage (req_body req ''fromAccountId'') n (req_body req ''message''))
               (elements (req_body req ''recipients''))
         \<and> res_status (fst (post_send_bulk env req tr)) = 200
         \<and> get_prop_opt (res_body (fst (post_send_bulk env req tr))) ''results'' = JArr results
         \<and> map entry_toNumber results = elements (req_body req ''recipients'')
         \<and> get_prop_opt (res_body (fst (post_send_bulk env req tr))) ''successful'' =
             JNum (int (length (filter (\<lambda>r. truthy (get_prop_opt r ''success'')) results)))
         \<and> get_prop_opt (res_body (fst (post_send_bulk env req tr))) ''failed'' =
             JNum (int (length (filter (\<lambda>r. \<not> truthy (get_prop_opt r ''success'')) results)))
         \<and> length (filter (\<lambda>r. truthy (get_prop_opt r ''success'')) results)
             + length (filter (\<lambda>r. \<not> truthy (get_prop_opt r ''success'')) results)
             = length (elements (req_body req ''recipients''))))
   \<and> (send_bulk_media_passes parse part req' mediaFile recipientList \<longrightarrow>
      (\<exists>results new.
         snd (post_send_bulk_media env parse part req' tr) = tr @ new
         \<and> filter is_send new =
             map (bulk_media_send (req_body req' ''fromAccountId'') (req_body req' ''message'') mediaFile)
               recipientList
         \<and> res_status (fst (post_send_bulk_media env parse part req' tr)) = 200
         \<and> get_prop_opt (res_body (fst (post_send_bulk_media env parse part req' tr))) ''results'' = JArr results
         \<and> map entry_toNumber results = recipientList
         \<and> get_prop_opt (res_body (fst (post_send_bulk_media env parse part req' tr))) ''successful'' =
             JNum (int (length (filter (\<lambda>r. truthy (get_prop_opt r ''success'')) results)))
         \<and> get_prop_opt (res_body (fst (post_send_bulk_media env parse part req' tr))) ''failed'' =
             JNum (int (length (filter (\<lambda>r. \<not> truthy (get_prop_opt r ''success'')) results)))
         \<and> length (filter (\<lambda>r. truthy (get_prop_opt r ''success'')) results)
             + length (filter (\<lambda>r. \<not> truthy (get_prop_opt r ''success'')) results)
             = length recipientList))"
proof (intro conjI impI)
  assume "send_bulk_passes req"
  from post_send_bulk_passes[OF this, of env tr] obtain results new where r:
    "post_send_bulk env req tr = (bulk_summary ''Bulk send completed: '' results, tr @ new)"
    "map entry_toNumber results = elements (req_body req ''recipients'')"
    "filter is_send new =
       map (\<lambda>n. SendTextMessage (req_body req ''fromAccountId'') n (req_body req ''message''))
         (elements (req_body req ''recipients''))"
    by blast
  have "length results = length (elements (req_body req ''recipients''))"
    using r(2) by (metis length_map)
  then have "length (filter (\<lambda>r. truthy (get_prop_opt r ''success'')) results)
             + length (filter (\<lambda>r. \<not> truthy (get_prop_opt r ''success'')) results)
             = length (elements (req_body req ''recipients''))"
    by (simp add: sum_length_filter_compl)
  then show "\<exists>results new.
         snd (post_send_bulk env req tr) = tr @ new
         \<and> filter is_send new =
             map (\<lambda>n. SendTextMessage (req_body req ''fromAccountId'') n (req_body req ''message''))
               (elements (req_body req ''recipients''))
         \<and> res_status (fst (post_send_bulk env req tr)) = 200
         \<and> get_prop_opt (res_body (fst (post_send_bulk env req tr))) ''results'' = JArr results
         \<and> map entry_toNumber results = elements (req_body req ''recipients'')
         \<and> get_prop_opt (res_body (fst (post_send_bulk env req tr))) ''successful'' =
             JNum (int (length (filter (\<lambda>r. truthy (get_prop_opt r ''success'')) results)))
         \<and> get_prop_opt (res_body (fst (post_send_bulk env req tr))) ''failed'' =
             JNum (int (length (filter (\<lambda>r. \<not> truthy (get_prop_opt r ''success'')) results)))
         \<and> length (filter (\<lambda>r. truthy (get_prop_opt r ''success'')) results)
             + length (filter (\<lambda>r. \<not> truthy (get_prop_opt r ''success'')) results)
             = length (elements (req_body req ''recipients''))"
    using r bulk_summary_body[of "''Bulk send completed: ''" results]
    by (intro exI[of _ results] exI[of _ new]) (simp add: count_successful_def count_failed_def)
next
  assume "send_bulk_media_passes parse part req' mediaFile recipientList"
  from post_send_bulk_media_passes[OF this, of env tr] obtain results new where r:
    "post_send_bulk_media env parse part req' tr =
       (bulk_summary ''Bulk media send completed: '' results, tr @ new)"
    "map entry_toNumber results = recipientList"
    "filter is_send new =
       map (bulk_media_send (req_body req' ''fromAccountId'') (req_body req' ''message'') mediaFile)
         recipientList"
    by blast
  have "length results = length recipientList"
    using r(2) by (metis length_map)
  then have "length (filter (\<lambda>r. truthy (get_prop_opt r ''success'')) results)
             + length (filter (\<lambda>r. \<not> truthy (get_prop_opt r ''success'')) results)
             = length recipientList"
    by (simp add: sum_length_filter_compl)
  then show "\<exists>results new.
         snd (post_send_bulk_media env parse part req' tr) = tr @ new
         \<and> filter is_send new =
             map (bulk_media_send (req_body req' ''fromAccountId'') (req_body req' ''message'') mediaFile)
               recipientList
         \<and> res_status (fst (post_send_bulk_media env parse part req' tr)) = 200
         \<and> get_prop_opt (res_body (fst (post_send_bulk_media env parse part req' tr))) ''results'' = JArr results
         \<and> map entry_toNumber results = recipientList
         \<and> get_prop_opt (res_body (fst (post_send_bulk_media env parse part req' tr))) ''successful'' =
             JNum (int (length (filter (\<lambda>r. truthy (get_prop_opt r ''success'')) results)))
         \<and> get_prop_opt (res_body (fst (post_send_bulk_media env parse part req' tr))) ''failed'' =
             JNum (int (length (filter (\<lambda>r. \<not> truthy (get_prop_opt r ''success'')) results)))
         \<and> length (filter (\<lambda>r. truthy (get_prop_opt r ''success'')) results)
             + length (filter (\<lambda>r. \<not> truthy (get_prop_opt r ''success'')) results)
             = length recipientList"
    using r bulk_summary_body[of "''Bulk media send completed: ''" results]
    by (intro exI[of _ results] exI[of _ new]) (simp add: count_successful_def count_failed_def)
qed

theorem bulk_one_result_per_recipient_witness:
  "send_bulk_passes (request_with bulk_body)
   \<and> send_bulk_media_passes rejecting_parse (Some sample_part) (request_with bulk_body)
       (stored_file sample_part) [JStr ''6281234567890'', JStr ''6289876543210'']
   \<and> (\<exists>results.
         get_prop_opt (res_body (fst (post_send_bulk sample_env (request_with bulk_body) []))) ''results''
           = JArr results
         \<and> map entry_toNumber results = [JStr ''6281234567890'', JStr ''6289876543210''])
   \<and> res_body (fst (post_send_bulk sample_env (request_with bulk_body) [])) =
       JObj [(''message'', JStr ''Bulk send completed: 1 successful, 1 failed''),
             (''successful'', JNum 1),
             (''failed'', JNum 1),
             (''results'',
              JArr [JObj [(''toNumber'', JStr ''6281234567890''), (''success'', JBool False),
                          (''error'', JStr ''not on WhatsApp'')],
                    JObj [(''toNumber'', JStr ''6289876543210''), (''success'', JBool True),
                          (''messageId'', JStr ''3EB0'')]])]
   \<and> (\<exists>results.
         get_prop_opt (res_body (fst (post_send_bulk_media sample_env rejecting_parse (Some sample_part)
                                        (request_with bulk_body) []))) ''results''
           = JArr results
         \<and> map entry_toNumber results = [JStr ''6281234567890'', JStr ''6289876543210''])
   \<and> get_prop_opt (res_body (fst (post_send_bulk_media sample_env rejecting_parse (Some sample_part)
                                    (request_with bulk_body) []))) ''successful'' = JNum 2
   \<and> get_prop_opt (res_body (fst (post_send_bulk_media sample_env rejecting_parse (Some sample_part)
                                    (request_with bulk_body) []))) ''failed'' = JNum 0"
proof -
  have h1: "send_bulk_passes (request_with bulk_body)"
    by (simp add: send_bulk_passes_def request_with_def bulk_body_def no_fields_def message_blank_def
         phoneRegex_test_def phone_pattern_def is_digit_def js_trim_def is_space_def)
  have h2: "send_bulk_media_passes rejecting_parse (Some sample_part) (request_with bulk_body)
       (stored_file sample_part) [JStr ''6281234567890'', JStr ''6289876543210'']"
    by (simp add: send_bulk_media_passes_def request_with_def bulk_body_def no_fields_def message_blank_def
         phoneRegex_test_def phone_pattern_def is_digit_def js_trim_def is_space_def
         upload_single_def sample_part_def fileFilter_def allowedMimes_def fileSize_def stored_file_def
         parse_recipients_def)
  have e: "elements (req_body (request_with bulk_body) ''recipients'') =
             [JStr ''6281234567890'', JStr ''6289876543210'']"
    by (simp add: request_with_def bulk_body_def)
  note T = bulk_one_result_per_recipient
         [of "request_with bulk_body" sample_env "[]" rejecting_parse "Some sample_part"
             "request_with bulk_body" "stored_file sample_part"
             "[JStr ''6281234567890'', JStr ''6289876543210'']"]
  have a: "\<exists>results.
         get_prop_opt (res_body (fst (post_send_bulk sample_env (request_with bulk_body) []))) ''results''
           = JArr results
         \<and> map entry_toNumber results = [JStr ''6281234567890'', JStr ''6289876543210'']"
    using T[THEN conjunct1] h1 e by auto
  have b: "\<exists>results.
         get_prop_opt (res_body (fst (post_send_bulk_media sample_env rejecting_parse (Some sample_part)
                                        (request_with bulk_body) []))) ''results''
           = JArr results
         \<and> map entry_toNumber results = [JStr ''6281234567890'', JStr ''6289876543210'']"
    using T[THEN conjunct2] h2 by auto
  have c: "res_body (fst (post_send_bulk sample_env (request_with bulk_body) [])) =
       JObj [(''message'', JStr ''Bulk send completed: 1 successful, 1 failed''),
             (''successful'', JNum 1),
             (''failed'', JNum 1),
             (''results'',
              JArr [JObj [(''toNumber'', JStr ''6281234567890''), (''success'', JBool False),
                          (''error'', JStr ''not on WhatsApp'')],
                    JObj [(''toNumber'', JStr ''6289876543210''), (''success'', JBool True),
                          (''messageId'', JStr ''3EB0'')]])]"
    by (simp add: post_send_bulk_def post_send_bulk_try_def send_bulk_step_def request_with_def
          bulk_body_def no_fields_def insert_message_text_def result_key_id_def success_entry_def
          failure_entry_def bulk_summary_def count_successful_def count_failed_def
          show_nat_one phone_defs run_defs)
  have d: "get_prop_opt (res_body (fst (post_send_bulk_media sample_env rejecting_parse (Some sample_part)
                                    (request_with bulk_body) []))) ''successful'' = JNum 2"
     "get_prop_opt (res_body (fst (post_send_bulk_media sample_env rejecting_parse (Some sample_part)
                                    (request_with bulk_body) []))) ''failed'' = JNum 0"
    by (simp_all add: post_send_bulk_media_def send_bulk_media_handler_def send_bulk_media_try_def
          send_bulk_media_catch_def send_bulk_media_step_def cleanup_remove_def parse_recipients_def
          insert_message_media_def result_key_id_def success_entry_def failure_entry_def
          bulk_summary_def count_successful_def count_failed_def js_or_def
          bulk_body_def sample_defs phone_defs run_defs)
  show ?thesis using h1 h2 a b c d by simp
qed

section \<open>Validation of a bulk send\<close>

lemma filter_invalid_total:
  "\<forall>r \<in> set rs. \<exists>s. js_to_string r = Inr s \<Longrightarrow> filter_invalid rs = Inr (filter fails_phone_check rs)"
  by (induction rs) (auto simp: phoneRegex_test_def fails_phone_check_def)

lemma filter_invalid_keeps:
  "r \<in> set rs \<Longrightarrow> fails_phone_check r \<Longrightarrow> filter_invalid rs = Inr bad \<Longrightarrow> bad \<noteq> []"
  by (induction rs arbitrary: bad) (auto simp: fails_phone_check_def split: sum.splits if_splits)

lemma message_blank_string_or_missing:
  "\<not> truthy message \<or> (\<exists>s. message = JStr s) \<Longrightarrow> message_blank message = Inr (missing_or_blank message)"
  by (cases message) (auto simp: message_blank_def js_trim_def)

lemma message_blank_cases:
  "missing_or_blank message \<Longrightarrow> message_blank message = Inr True"
  by (cases message) (auto simp: message_blank_def js_trim_def)

lemma send_bulk_rejected_sends_nothing:
  assumes "(\<exists>r \<in> set (elements (req_body req ''recipients'')). fails_phone_check r)
          \<or> length (elements (req_body req ''recipients'')) > 100
          \<or> missing_or_blank (req_body req ''message'')"
  shows "snd (post_send_bulk env req tr) = tr"
proof -
  let ?rs = "elements (req_body req ''recipients'')"
  let ?m = "req_body req ''message''"
  show ?thesis
  proof (cases "message_blank ?m")
    case (Inl e)
    then show ?thesis
      by (simp add: post_send_bulk_def post_send_bulk_try_def run_defs)
  next
    case (Inr blank)
    note mb = this
    show ?thesis
    proof (cases blank)
      case True
      then show ?thesis using mb
        by (simp add: post_send_bulk_def post_send_bulk_try_def run_defs)
    next
      case False
      then have nb: "\<not> missing_or_blank ?m" using mb message_blank_cases by fastforce
      show ?thesis
      proof (cases "filter_invalid ?rs")
        case (Inl e)
        then show ?thesis using mb
          by (simp add: post_send_bulk_def post_send_bulk_try_def run_defs)
      next
        case (Inr bad)
        have "bad \<noteq> [] \<or> length ?rs > 100"
          using assms nb Inr filter_invalid_keeps by blast
        then show ?thesis using mb Inr
          by (auto simp: post_send_bulk_def post_send_bulk_try_def run_defs)
      qed
    qed
  qed
qed

lemma send_bulk_rejected_400:
  assumes msg: "\<not> truthy (req_body req ''message'') \<or> (\<exists>s. req_body req ''message'' = JStr s)"
    and conv: "\<forall>r \<in> set (elements (req_body req ''recipients'')). \<exists>s. js_to_string r = Inr s"
  shows "((\<exists>r \<in> set (elements (req_body req ''recipients'')). fails_phone_check r)
          \<or> length (elements (req_body req ''recipients'')) > 100
          \<or> missing_or_blank (req_body req ''message'')
        \<longrightarrow> res_status (fst (post_send_bulk env req tr)) = 400)
       \<and> (truthy (req_body req ''fromAccountId'')
          \<and> \<not> missing_or_blank (req_body req ''message'')
          \<and> (\<exists>r \<in> set (elements (req_body req ''recipients'')). fails_phone_check r)
        \<longrightarrow> fst (post_send_bulk env req tr) =
              json 400 (JObj [(''error'', JStr ''Invalid phone numbers''),
                              (''invalidNumbers'',
                               JArr (filter fails_phone_check (elements (req_body req ''recipients''))))]))"
proof -
  let ?rs = "elements (req_body req ''recipients'')"
  have f: "filter_invalid ?rs = Inr (filter fails_phone_check ?rs)"
    using conv by (rule filter_invalid_total)
  have b: "message_blank (req_body req ''message'') = Inr (missing_or_blank (req_body req ''message''))"
    using msg by (rule message_blank_string_or_missing)
  have ne: "(\<exists>r \<in> set ?rs. fails_phone_check r) \<longleftrightarrow> filter fails_phone_check ?rs \<noteq> []"
    by (simp add: filter_empty_conv)
  have arr: "r \<in> set ?rs \<Longrightarrow> isArray (req_body req ''recipients'') \<and> truthy (req_body req ''recipients'')" for r
    by (cases "req_body req ''recipients''") auto
  show ?thesis
    using f b ne arr
    by (auto simp: post_send_bulk_def post_send_bulk_try_def catch_respond_def io_bind_def
          lift_def io_return_def Let_def json_def)
qed

text \<open>
  C2, as amended. For every POST /send-bulk request: if any recipient fails the
  10-to-15-digit check, or the recipient list has more than 100 entries, or the message is
  missing or blank, nothing is sent (the trace is unchanged: the send loop is never
  entered). When moreover the message, if given, is a string and every recipient converts
  to a string, the response status is 400, and the 400 response for invalid numbers lists
  exactly the recipients that failed the check, in order.
\<close>

theorem send_bulk_rejects_before_sending:
  "((\<exists>r \<in> set (elements (req_body req ''recipients'')). fails_phone_check r)
      \<or> length (elements (req_body req ''recipients'')) > 100
      \<or> missing_or_blank (req_body req ''message'')
    \<longrightarrow> snd (post_send_bulk env req tr) = tr)
   \<and> ((\<not> truthy (req_body req ''message'') \<or> (\<exists>s. req_body req ''message'' = JStr s))
       \<and> (\<forall>r \<in> set (elements (req_body req ''recipients'')). \<exists>s. js_to_string r = Inr s)
    \<longrightarrow>
      ((\<exists>r \<in> set (elements (req_body req ''recipients'')). fails_phone_check r)
          \<or> length (elements (req_body req ''recipients'')) > 100
          \<or> missing_or_blank (req_body req ''message'')
        \<longrightarrow> res_status (fst (post_send_bulk env req tr)) = 400)
       \<and> (truthy (req_body req ''fromAccountId'')
          \<and> \<not> missing_or_blank (req_body req ''message'')
          \<and> (\<exists>r \<in> set (elements (req_body req ''recipients'')). fails_phone_check r)
        \<longrightarrow> fst (post_send_bulk env req tr) =
              json 400 (JObj [(''error'', JStr ''Invalid phone numbers''),
                              (''invalidNumbers'',
                               JArr (filter fails_phone_check (elements (req_body req ''recipients''))))])))"
  using send_bulk_rejected_sends_nothing[of req env tr] send_bulk_rejected_400[of req env tr]
  by blast

text \<open>The claim as stated fails: a message that is a number passes the test for a missing
  message, has no \<^verbatim>\<open>trim\<close> method, and the request with an invalid recipient is answered
  500.\<close>

theorem send_bulk_rejects_before_sending_counterexample:
  "fails_phone_check (JStr ''12345'')
   \<and> elements (req_body (request_with number_message_body) ''recipients'') = [JStr ''12345'']
   \<and> res_status (fst (post_send_bulk sample_env (request_with number_message_body) [])) = 500"
  by (simp add: fails_phone_check_def phoneRegex_test_def phone_pattern_def
        post_send_bulk_def post_send_bulk_try_def catch_respond_def io_bind_def
        lift_def io_return_def Let_def json_def request_with_def number_message_body_def
        message_blank_def)

theorem send_bulk_rejects_before_sending_witness:
  "req_body (request_with bad_recipient_body) ''message'' = JStr ''hello''
   \<and> elements (req_body (request_with bad_recipient_body) ''recipients'') =
       [JStr ''6281234567890'', JStr ''12345'', JStr ''+62 812'']
   \<and> fails_phone_check (JStr ''12345'') \<and> fails_phone_check (JStr ''+62 812'')
   \<and> truthy (req_body (request_with bad_recipient_body) ''fromAccountId'')
   \<and> \<not> missing_or_blank (req_body (request_with bad_recipient_body) ''message'')
   \<and> post_send_bulk sample_env (request_with bad_recipient_body) [] =
        (json 400 (JObj [(''error'', JStr ''Invalid phone numbers''),
                         (''invalidNumbers'', JArr [JStr ''12345'', JStr ''+62 812''])]), [])"
proof -
  let ?req = "request_with bad_recipient_body"
  have m: "\<not> truthy (req_body ?req ''message'') \<or> (\<exists>s. req_body ?req ''message'' = JStr s)"
    by (simp add: request_with_def bad_recipient_body_def)
  have c: "\<forall>r \<in> set (elements (req_body ?req ''recipients'')). \<exists>s. js_to_string r = Inr s"
    by (simp add: request_with_def bad_recipient_body_def)
  have e: "elements (req_body ?req ''recipients'') = [JStr ''6281234567890'', JStr ''12345'', JStr ''+62 812'']"
    by (simp add: request_with_def bad_recipient_body_def)
  have p: "\<not> fails_phone_check (JStr ''6281234567890'')" "fails_phone_check (JStr ''12345'')"
     "fails_phone_check (JStr ''+62 812'')"
    by (simp_all add: fails_phone_check_def phoneRegex_test_def phone_pattern_def is_digit_def)
  have t: "truthy (req_body ?req ''fromAccountId'')"
    by (simp add: request_with_def bad_recipient_body_def)
  have nb: "\<not> missing_or_blank (req_body ?req ''message'')"
    by (simp add: request_with_def bad_recipient_body_def js_trim_def is_space_def)
  have x: "\<exists>r \<in> set (elements (req_body ?req ''recipients'')). fails_phone_check r"
    using e p by simp
  note T = send_bulk_rejects_before_sending[of ?req sample_env "[]"]
  have "snd (post_send_bulk sample_env ?req []) = []"
    using T[THEN conjunct1] x by blast
  moreover have "fst (post_send_bulk sample_env ?req []) =
          json 400 (JObj [(''error'', JStr ''Invalid phone numbers''),
                          (''invalidNumbers'', JArr (filter fails_phone_check (elements (req_body ?req ''recipients''))))])"
    using T[THEN conjunct2] m c x t nb by blast
  ultimately have r: "post_send_bulk sample_env ?req [] =
        (json 400 (JObj [(''error'', JStr ''Invalid phone numbers''),
                         (''invalidNumbers'', JArr [JStr ''12345'', JStr ''+62 812''])]), [])"
    using e p by (simp add: prod_eq_iff)
  have "req_body ?req ''message'' = JStr ''hello''"
    by (simp add: request_with_def bad_recipient_body_def)
  then show ?thesis using r e p t nb by simp
qed

section \<open>Temporary files of the upload routes\<close>

text \<open>Once the media handler reaches the send, the last thing it does before it answers,
  whether the send or the logging succeeds or throws, is to unlink the stored file; the
  bulk media handler removes it after its loop.\<close>

lemma cleanup_unlink_trace:
  assumes "truthy f" and "truthy (get_prop_opt f ''path'')"
  shows "cleanup_unlink env f tr = (Inr (), tr @ [Unlink (get_prop_opt f ''path'')])"
  using assms by (simp add: cleanup_unlink_def run_defs split: reply.splits)

lemma send_media_attempt_unlinks:
  assumes f: "truthy mediaFile" and p: "truthy (get_prop_opt mediaFile ''path'')"
  shows "\<exists>r send new. send_media_attempt env fromAccountId toNumber message trimmed mediaFile tr =
           (r, tr @ send # new @ [Unlink (get_prop_opt mediaFile ''path'')]) \<and> is_send send"
proof -
  note c = cleanup_unlink_trace[OF f p]
  show ?thesis
    using f
    by (auto simp: send_media_attempt_def c try_catch_def io_bind_def io_return_def io_throw_def
          lift_def call_def split: reply.splits sum.splits)
qed

lemma send_media_unlinks_after_sending:
  assumes "upload_single ''media'' part = Inr f" and "truthy f" and "truthy (get_prop_opt f ''path'')"
    and "send_media_passes env tr part req" and "\<not> truthy (req_body req ''scheduledAt'')"
  shows "\<exists>send new. snd (post_send_media env part req tr) =
           tr @ select_connected_account (req_body req ''fromAccountId'') # send # new
              @ [Unlink (get_prop_opt f ''path'')] \<and> is_send send"
proof -
  let ?sel = "select_connected_account (req_body req ''fromAccountId'')"
  obtain t where t: "opt_trim (req_body req ''message'') = Inr t"
    using assms(4) unfolding send_media_passes_def by blast
  obtain r send new where a:
    "send_media_attempt env (req_body req ''fromAccountId'') (req_body req ''toNumber'')
       (req_body req ''message'') t f (tr @ [?sel]) =
       (r, (tr @ [?sel]) @ send # new @ [Unlink (get_prop_opt f ''path'')])" "is_send send"
    using send_media_attempt_unlinks[OF assms(2,3)] by blast
  have c: "cleanup_unlink env f tr' = (Inr (), tr' @ [Unlink (get_prop_opt f ''path'')])" for tr'
    by (rule cleanup_unlink_trace[OF assms(2,3)])
  have "snd (post_send_media env part req tr) =
          tr @ ?sel # send # new @ [Unlink (get_prop_opt f ''path'')]
        \<or> snd (post_send_media env part req tr) =
          tr @ ?sel # send # (new @ [Unlink (get_prop_opt f ''path'')]) @ [Unlink (get_prop_opt f ''path'')]"
    using assms(1,4,5) t a(1) c
    by (auto simp: send_media_passes_def post_send_media_def send_media_handler_def send_media_try_def
          send_media_catch_def select_connected_account_def finish_def try_catch_def io_bind_def
          io_return_def lift_def call_def Let_def split: sum.splits)
  then show ?thesis using a(2) by auto
qed

lemma cleanup_remove_trace:
  assumes "truthy (get_prop_opt f ''path'')"
  shows "cleanup_remove env f tr = (Inr (), tr @ [Remove (get_prop_opt f ''path'')])"
  using assms by (simp add: cleanup_remove_def run_defs split: reply.splits)

lemma send_bulk_media_removes_after_loop:
  assumes "send_bulk_media_passes parse part req f recipientList" and "truthy (get_prop_opt f ''path'')"
  shows "\<exists>new. snd (post_send_bulk_media env parse part req tr) = tr @ new @ [Remove (get_prop_opt f ''path'')]"
proof -
  obtain results new where l:
    "send_bulk_media_loop env (req_body req ''fromAccountId'') (req_body req ''message'') f recipientList [] tr
       = (Inr results, tr @ new)"
    using send_bulk_media_loop_result by blast
  have "snd (post_send_bulk_media env parse part req tr) = tr @ new @ [Remove (get_prop_opt f ''path'')]"
    using assms l cleanup_remove_trace[OF assms(2), of env "tr @ new"]
    by (auto simp: post_send_bulk_media_def send_bulk_media_handler_def send_bulk_media_try_def
         finish_def try_catch_def io_bind_def lift_def io_return_def send_bulk_media_passes_def Let_def)
  then show ?thesis by blast
qed

text \<open>
  C3. The claim fails on the code: when a file has been stored and a check of the handler
  answers 400 by an early \<^verbatim>\<open>return\<close>, no \<^verbatim>\<open>fs.unlink\<close> or \<^verbatim>\<open>fs.remove\<close> is called. Here
  the middleware stores the sample file, the phone number is invalid, and the trace stays
  empty, for the media route and for the bulk media route.
\<close>

theorem validation_error_keeps_temp_file:
  "upload_single ''media'' (Some sample_part) = Inr (stored_file sample_part)
   \<and> post_send_media sample_env (Some sample_part) (request_with invalid_phone_media_body) [] =
       (json 400 (JObj [(''error'', JStr ''Invalid phone number format'')]), [])
   \<and> post_send_bulk_media sample_env rejecting_parse (Some sample_part) (request_with invalid_bulk_media_body) [] =
       (json 400 (JObj [(''error'', JStr ''Invalid phone numbers''),
                        (''invalidNumbers'', JArr [JStr ''12345''])]), [])"
  by (simp add: post_send_media_def send_media_handler_def send_media_try_def
        post_send_bulk_media_def send_bulk_media_handler_def send_bulk_media_try_def
        parse_recipients_def
        invalid_phone_media_body_def invalid_bulk_media_body_def run_defs sample_defs phone_defs)

section \<open>Scheduling\<close>

lemma cleanup_unlink_no_send: "emits (\<lambda>e. \<not> is_send e) (cleanup_unlink env f)"
  unfolding cleanup_unlink_def
  by (intro emits_rules; simp)

lemma scheduled_media_no_send:
  assumes "truthy (req_body req ''scheduledAt'')"
  shows "emits (\<lambda>e. \<not> is_send e) (send_media_handler env req)"
  unfolding send_media_handler_def send_media_try_def send_media_attempt_def send_media_catch_def Let_def
  using assms
  by (intro emits_rules cleanup_unlink_no_send; simp)

lemma scheduled_route_no_send:
  assumes "truthy (req_body req ''scheduledAt'')"
  shows "emits (\<lambda>e. \<not> is_send e) (post_send_media env part req)"
proof (cases "upload_single ''media'' part")
  case (Inl err)
  then show ?thesis by (simp add: emits_def post_send_media_def)
next
  case (Inr f)
  then have "post_send_media env part req = send_media_handler env (req\<lparr>req_file := f\<rparr>)"
    by (simp add: post_send_media_def fun_eq_iff)
  then show ?thesis using scheduled_media_no_send[of "req\<lparr>req_file := f\<rparr>" env] assms by simp
qed

lemma scheduled_media_501:
  assumes "send_media_passes env tr part req" and "truthy (req_body req ''scheduledAt'')"
  shows "post_send_media env part req tr =
           (json 501 (JObj [(''error'', JStr ''Scheduled media messages not implemented yet'')]),
            tr @ [select_connected_account (req_body req ''fromAccountId'')])"
  using assms
  by (auto simp: send_media_passes_def post_send_media_def send_media_handler_def send_media_try_def
        select_connected_account_def run_defs)

lemma scheduledAt_ignored_send:
  "post_send env (with_scheduledAt v req) = post_send env req"
  by (simp add: post_send_def post_send_try_def with_scheduledAt_def Let_def)

lemma scheduledAt_ignored_bulk:
  "post_send_bulk env (with_scheduledAt v req) = post_send_bulk env req"
  by (simp add: post_send_bulk_def post_send_bulk_try_def with_scheduledAt_def Let_def)

lemma scheduledAt_ignored_bulk_media:
  "post_send_bulk_media env parse part (with_scheduledAt v req) = post_send_bulk_media env parse part req"
proof (rule ext)
  fix tr
  have c: "send_bulk_media_catch env ((with_scheduledAt v req)\<lparr>req_file := f\<rparr>) =
           send_bulk_media_catch env (req\<lparr>req_file := f\<rparr>)" for f
    by (rule ext) (simp add: send_bulk_media_catch_def)
  have t: "send_bulk_media_try env parse ((with_scheduledAt v req)\<lparr>req_file := f\<rparr>) =
           send_bulk_media_try env parse (req\<lparr>req_file := f\<rparr>)" for f
    by (simp add: send_bulk_media_try_def with_scheduledAt_def Let_def)
  show "post_send_bulk_media env parse part (with_scheduledAt v req) tr =
        post_send_bulk_media env parse part req tr"
    by (simp add: post_send_bulk_media_def send_bulk_media_handler_def c t split: sum.splits)
qed

lemma no_route_defers_a_send:
  "\<exists>new. snd (handle env rt route part req tr) = tr @ new \<and> list_all (\<lambda>e. \<not> deferred_send e) new"
proof -
  have "emits (\<lambda>e. \<not> deferred_send e) (handle env rt route part req)"
    by (rule emits_weaken[OF handle_safe]) (simp add: safe_def)
  then show ?thesis unfolding emits_def by blast
qed

text \<open>
  C4, as amended. No route registers a delivery for later. A POST /send-media request with
  a truthy \<^verbatim>\<open>scheduledAt\<close> makes no delivery attempt, whatever else it holds, and is
  answered 501 when it passes the handler's earlier checks and the account lookup returns
  a row (a request that fails one of them is answered by that check). POST /send,
  POST /send-bulk and POST /send-bulk-media do exactly the same whatever \<^verbatim>\<open>scheduledAt\<close>
  is.
\<close>

theorem scheduling_is_never_deferred:
  "(\<exists>new. snd (handle env rt route part req tr) = tr @ new \<and> list_all (\<lambda>e. \<not> deferred_send e) new)
   \<and> (truthy (req_body req ''scheduledAt'') \<longrightarrow>
        (\<exists>new. snd (post_send_media env part req tr) = tr @ new \<and> list_all (\<lambda>e. \<not> is_send e) new))
   \<and> (send_media_passes env tr part req \<and> truthy (req_body req ''scheduledAt'') \<longrightarrow>
        post_send_media env part req tr =
          (json 501 (JObj [(''error'', JStr ''Scheduled media messages not implemented yet'')]),
           tr @ [select_connected_account (req_body req ''fromAccountId'')]))
   \<and> post_send env (with_scheduledAt v req) = post_send env req
   \<and> post_send_bulk env (with_scheduledAt v req) = post_send_bulk env req
   \<and> post_send_bulk_media env parse part (with_scheduledAt v req) = post_send_bulk_media env parse part req"
proof (intro conjI impI)
  show "\<exists>new. snd (handle env rt route part req tr) = tr @ new \<and> list_all (\<lambda>e. \<not> deferred_send e) new"
    by (rule no_route_defers_a_send)
next
  assume "truthy (req_body req ''scheduledAt'')"
  then have "emits (\<lambda>e. \<not> is_send e) (post_send_media env part req)"
    by (rule scheduled_route_no_send)
  then show "\<exists>new. snd (post_send_media env part req tr) = tr @ new \<and> list_all (\<lambda>e. \<not> is_send e) new"
    unfolding emits_def by blast
next
  assume "send_media_passes env tr part req \<and> truthy (req_body req ''scheduledAt'')"
  then show "post_send_media env part req tr =
          (json 501 (JObj [(''error'', JStr ''Scheduled media messages not implemented yet'')]),
           tr @ [select_connected_account (req_body req ''fromAccountId'')])"
    using scheduled_media_501 by blast
qed (rule scheduledAt_ignored_send scheduledAt_ignored_bulk scheduledAt_ignored_bulk_media)+

text \<open>The claim as stated fails: with \<^verbatim>\<open>scheduledAt\<close> set and an invalid phone number the
  answer is 400, not 501.\<close>

theorem scheduling_is_never_deferred_counterexample:
  "truthy (req_body scheduled_invalid_request ''scheduledAt'')
   \<and> post_send_media sample_env None scheduled_invalid_request [] =
       (json 400 (JObj [(''error'', JStr ''Invalid phone number format'')]), [])"
  by (simp add: scheduled_invalid_request_def with_scheduledAt_def
        post_send_media_def send_media_handler_def send_media_try_def
        invalid_phone_media_body_def run_defs sample_defs phone_defs)

theorem scheduling_is_never_deferred_witness:
  "truthy (req_body scheduled_request ''scheduledAt'')
   \<and> send_media_passes sample_env [] None scheduled_request
   \<and> post_send_media sample_env None scheduled_request [] =
       (json 501 (JObj [(''error'', JStr ''Scheduled media messages not implemented yet'')]),
        [select_connected_account (JStr ''1'')])
   \<and> (\<exists>new. snd (post_send_media sample_env None scheduled_request []) = new
         \<and> list_all (\<lambda>e. \<not> is_send e) new)"
proof -
  have s: "truthy (req_body scheduled_request ''scheduledAt'')"
    by (simp add: scheduled_request_def with_scheduledAt_def)
  have f: "req_body scheduled_request ''fromAccountId'' = JStr ''1''"
    by (simp add: scheduled_request_def with_scheduledAt_def request_with_def media_body_def)
  have p: "send_media_passes sample_env [] None scheduled_request"
    unfolding send_media_passes_def
    by (rule exI[of _ JUndefined], rule exI[of _ "JStr ''hi''"],
        rule exI[of _ "JArr [JObj [(''id'', JNum 1)]]"], rule exI[of _ "JNum 1"])
       (simp add: scheduled_request_def with_scheduledAt_def request_with_def media_body_def
          upload_single_def select_connected_account_def phone_defs)
  note T = scheduling_is_never_deferred
             [of sample_env sample_runtime POST_send_media None scheduled_request "[]"
                 JUndefined rejecting_parse]
  have a: "\<exists>new. snd (post_send_media sample_env None scheduled_request []) = [] @ new
             \<and> list_all (\<lambda>e. \<not> is_send e) new"
    using T[THEN conjunct2, THEN conjunct1] s by blast
  have b: "post_send_media sample_env None scheduled_request [] =
       (json 501 (JObj [(''error'', JStr ''Scheduled media messages not implemented yet'')]),
        [] @ [select_connected_account (req_body scheduled_request ''fromAccountId'')])"
    using T[THEN conjunct2, THEN conjunct2, THEN conjunct1] s p by blast
  show ?thesis using s p a b f by simp
qed

section \<open>Sending one message\<close>

text \<open>
  C5. POST /send answers 400 and calls nothing when \<^verbatim>\<open>fromAccountId\<close>, \<^verbatim>\<open>toNumber\<close> or
  \<^verbatim>\<open>message\<close> is missing; answers 400 "Account not found or not connected" after the
  lookup alone when the lookup of a connected account with that id returns no row; calls
  \<^verbatim>\<open>sendTextMessage\<close> only when the fields are present and the lookup returned a row; and a
  response with \<^verbatim>\<open>success: true\<close> is given exactly after the message was sent and the
  activity log row with action \<^verbatim>\<open>message_sent\<close> was inserted for the account.
\<close>

theorem send_validates_then_sends:
  "(\<not> truthy (req_body req ''fromAccountId'') \<or> \<not> truthy (req_body req ''toNumber'')
      \<or> \<not> truthy (req_body req ''message'')
    \<longrightarrow> res_status (fst (post_send env req tr)) = 400 \<and> snd (post_send env req tr) = tr)
   \<and> (truthy (req_body req ''fromAccountId'') \<and> truthy (req_body req ''toNumber'')
       \<and> truthy (req_body req ''message'')
       \<and> env tr (select_connected_account (req_body req ''fromAccountId'')) = Returned (JArr [])
    \<longrightarrow> post_send env req tr =
          (json 400 (JObj [(''error'', JStr ''Account not found or not connected'')]),
           tr @ [select_connected_account (req_body req ''fromAccountId'')]))
   \<and> (\<exists>new. snd (post_send env req tr) = tr @ new
        \<and> ((\<exists>e \<in> set new. is_send e) \<longrightarrow>
             truthy (req_body req ''fromAccountId'') \<and> truthy (req_body req ''toNumber'')
             \<and> truthy (req_body req ''message'')
             \<and> (\<exists>account n.
                   env tr (select_connected_account (req_body req ''fromAccountId'')) = Returned account
                   \<and> get_prop account ''length'' = Inr n \<and> truthy n)))
   \<and> (get_prop_opt (res_body (fst (post_send env req tr))) ''success'' = JBool True \<longrightarrow>
        (\<exists>result text ack.
           js_to_string (req_body req ''toNumber'') = Inr text
           \<and> snd (post_send env req tr) =
               tr @ [select_connected_account (req_body req ''fromAccountId''),
                     SendTextMessage (req_body req ''fromAccountId'') (req_body req ''toNumber'')
                       (req_body req ''message''),
                     log_message_sent (req_body req ''fromAccountId'') text]
           \<and> env (tr @ [select_connected_account (req_body req ''fromAccountId''),
                         SendTextMessage (req_body req ''fromAccountId'') (req_body req ''toNumber'')
                           (req_body req ''message'')])
                  (log_message_sent (req_body req ''fromAccountId'') text) = Returned ack
           \<and> fst (post_send env req tr) =
               json 200 (JObj [(''success'', JBool True),
                               (''message'', JStr ''Message sent successfully''),
                               (''result'', result)])))
   \<and> (truthy (req_body req ''fromAccountId'') \<and> truthy (req_body req ''toNumber'')
       \<and> truthy (req_body req ''message'')
       \<and> env tr (select_connected_account (req_body req ''fromAccountId'')) = Returned account
       \<and> get_prop account ''length'' = Inr n \<and> truthy n
       \<and> env (tr @ [select_connected_account (req_body req ''fromAccountId'')])
              (SendTextMessage (req_body req ''fromAccountId'') (req_body req ''toNumber'')
                 (req_body req ''message'')) = Returned result
       \<and> js_to_string (req_body req ''toNumber'') = Inr text
       \<and> env (tr @ [select_connected_account (req_body req ''fromAccountId''),
                     SendTextMessage (req_body req ''fromAccountId'') (req_body req ''toNumber'')
                       (req_body req ''message'')])
              (log_message_sent (req_body req ''fromAccountId'') text) = Returned ack
    \<longrightarrow> fst (post_send env req tr) =
          json 200 (JObj [(''success'', JBool True),
                          (''message'', JStr ''Message sent successfully''),
                          (''result'', result)]))"
  by (auto simp: post_send_def post_send_try_def select_connected_account_def log_message_sent_def
        run_defs split: reply.splits sum.splits)

theorem send_validates_then_sends_witness:
  "\<not> truthy (req_body (request_with no_fields) ''fromAccountId'')
   \<and> res_status (fst (post_send sample_env (request_with no_fields) [])) = 400
   \<and> snd (post_send sample_env (request_with no_fields) []) = []
   \<and> empty_env [] (select_connected_account (JNum 1)) = Returned (JArr [])
   \<and> post_send empty_env (request_with send_body) [] =
       (json 400 (JObj [(''error'', JStr ''Account not found or not connected'')]),
        [select_connected_account (JNum 1)])
   \<and> fst (post_send sample_env (request_with send_body) []) =
       json 200 (JObj [(''success'', JBool True),
                       (''message'', JStr ''Message sent successfully''),
                       (''result'', JObj [(''key'', JObj [(''id'', JStr ''3EB0'')])])])
   \<and> snd (post_send sample_env (request_with send_body) []) =
       [select_connected_account (JNum 1),
        SendTextMessage (JNum 1) (JStr ''6289876543210'') (JStr ''hello''),
        log_message_sent (JNum 1) ''6289876543210'']"
proof -
  let ?req = "request_with send_body"
  have b: "req_body ?req ''fromAccountId'' = JNum 1" "req_body ?req ''toNumber'' = JStr ''6289876543210''"
    "req_body ?req ''message'' = JStr ''hello''"
    by (simp_all add: request_with_def send_body_def)
  have m: "\<not> truthy (req_body (request_with no_fields) ''fromAccountId'')"
    by (simp add: request_with_def no_fields_def)
  note A = send_validates_then_sends[of "request_with no_fields" sample_env "[]", THEN conjunct1]
  have a: "res_status (fst (post_send sample_env (request_with no_fields) [])) = 400
           \<and> snd (post_send sample_env (request_with no_fields) []) = []"
    using A m by blast
  have e: "empty_env [] (select_connected_account (JNum 1)) = Returned (JArr [])"
    by (simp add: select_connected_account_def)
  note B = send_validates_then_sends[of ?req empty_env "[]", THEN conjunct2, THEN conjunct1]
  have c: "post_send empty_env ?req [] =
       (json 400 (JObj [(''error'', JStr ''Account not found or not connected'')]),
        [select_connected_account (JNum 1)])"
    using B e b by simp
  note C = send_validates_then_sends
             [of ?req sample_env "[]" "JArr [JObj [(''id'', JNum 1)]]" "JNum 1"
                 "JObj [(''key'', JObj [(''id'', JStr ''3EB0'')])]" "''6289876543210''"
                 "JObj [(''insertId'', JNum 7), (''affectedRows'', JNum 1)]"]
  have d: "fst (post_send sample_env ?req []) =
       json 200 (JObj [(''success'', JBool True),
                       (''message'', JStr ''Message sent successfully''),
                       (''result'', JObj [(''key'', JObj [(''id'', JStr ''3EB0'')])])])"
    using C[THEN conjunct2, THEN conjunct2, THEN conjunct2, THEN conjunct2] b
    by (simp add: select_connected_account_def log_message_sent_def)
  then have "get_prop_opt (res_body (fst (post_send sample_env ?req []))) ''success'' = JBool True"
    by (simp add: json_def)
  then have "\<exists>result text ack.
           js_to_string (req_body ?req ''toNumber'') = Inr text
           \<and> snd (post_send sample_env ?req []) =
               [] @ [select_connected_account (req_body ?req ''fromAccountId''),
                     SendTextMessage (req_body ?req ''fromAccountId'') (req_body ?req ''toNumber'')
                       (req_body ?req ''message''),
                     log_message_sent (req_body ?req ''fromAccountId'') text]
           \<and> sample_env ([] @ [select_connected_account (req_body ?req ''fromAccountId''),
                         SendTextMessage (req_body ?req ''fromAccountId'') (req_body ?req ''toNumber'')
                           (req_body ?req ''message'')])
                  (log_message_sent (req_body ?req ''fromAccountId'') text) = Returned ack
           \<and> fst (post_send sample_env ?req []) =
               json 200 (JObj [(''success'', JBool True),
                               (''message'', JStr ''Message sent successfully''),
                               (''result'', result)])"
    using C[THEN conjunct2, THEN conjunct2, THEN conjunct2, THEN conjunct1] by blast
  then have t: "snd (post_send sample_env ?req []) =
       [select_connected_account (JNum 1),
        SendTextMessage (JNum 1) (JStr ''6289876543210'') (JStr ''hello''),
        log_message_sent (JNum 1) ''6289876543210'']"
    using b by auto
  show ?thesis using m a e c d t by simp
qed

section \<open>Upload limits of POST /send-media\<close>

lemma upload_too_large:
  assumes "part_fieldname file = ''media''" and "part_mimetype file \<in> set allowedMimes"
    and "part_size file > 16 * 1024 * 1024"
  shows "post_send_media env (Some file) req tr =
           (json 400 (JObj [(''error'', JStr ''File too large. Maximum size is 16MB.'')]), tr)"
  using assms by (simp add: post_send_media_def upload_single_def fileFilter_def fileSize_def)

lemma upload_type_refused:
  assumes "part_mimetype file \<notin> set allowedMimes"
  shows "res_status (fst (post_send_media env (Some file) req tr)) = 400
         \<and> snd (post_send_media env (Some file) req tr) = tr"
  using assms by (simp add: post_send_media_def upload_single_def fileFilter_def json_def)

lemma upload_type_refused_message:
  assumes "part_mimetype file \<notin> set allowedMimes" and "part_fieldname file = ''media''"
  shows "fst (post_send_media env (Some file) req tr) =
           json 400 (JObj [(''error'',
             JStr ''File type not supported. Please use images, videos, audio, or documents.'')])"
  using assms by (simp add: post_send_media_def upload_single_def fileFilter_def)

text \<open>
  C6, as amended. For every POST /send-media request: an uploaded file (field
  \<^verbatim>\<open>media\<close>) of an allowed MIME type that is larger than 16 MB is rejected with status 400
  and error "File too large. Maximum size is 16MB."; a file whose MIME type is outside the
  allowed list is rejected with status 400, whatever its size (with the error "File type
  not supported. ..." when it came under the field \<^verbatim>\<open>media\<close>); in both cases nothing is
  called: no message is sent.
\<close>

theorem oversized_or_unsupported_upload_rejected:
  "(part_fieldname file = ''media'' \<and> part_mimetype file \<in> set allowedMimes
      \<and> part_size file > 16 * 1024 * 1024
    \<longrightarrow> post_send_media env (Some file) req tr =
          (json 400 (JObj [(''error'', JStr ''File too large. Maximum size is 16MB.'')]), tr))
   \<and> (part_mimetype file \<notin> set allowedMimes
    \<longrightarrow> res_status (fst (post_send_media env (Some file) req tr)) = 400
        \<and> snd (post_send_media env (Some file) req tr) = tr)
   \<and> (part_mimetype file \<notin> set allowedMimes \<and> part_fieldname file = ''media''
    \<longrightarrow> fst (post_send_media env (Some file) req tr) =
          json 400 (JObj [(''error'',
            JStr ''File type not supported. Please use images, videos, audio, or documents.'')]))"
  using upload_too_large upload_type_refused upload_type_refused_message
  by blast

text \<open>The claim as stated fails for a file that is both too large and of a type outside
  the list: the file filter runs on the part's headers, before any of its bytes is
  counted, and the answer is the one for the type.\<close>

theorem oversized_or_unsupported_upload_rejected_counterexample:
  "part_size big_text_part > 16 * 1024 * 1024
   \<and> post_send_media sample_env (Some big_text_part) (request_with media_body) [] =
       (json 400 (JObj [(''error'',
          JStr ''File type not supported. Please use images, videos, audio, or documents.'')]), [])"
  by (simp add: post_send_media_def upload_single_def fileFilter_def allowedMimes_def
        big_text_part_def)

theorem oversized_or_unsupported_upload_rejected_witness:
  "part_fieldname big_video_part = ''media''
   \<and> part_mimetype big_video_part \<in> set allowedMimes
   \<and> part_size big_video_part > 16 * 1024 * 1024
   \<and> post_send_media sample_env (Some big_video_part) (request_with media_body) [] =
       (json 400 (JObj [(''error'', JStr ''File too large. Maximum size is 16MB.'')]), [])
   \<and> part_mimetype small_text_part \<notin> set allowedMimes
   \<and> part_fieldname small_text_part = ''media''
   \<and> post_send_media sample_env (Some small_text_part) (request_with media_body) [] =
       (json 400 (JObj [(''error'',
          JStr ''File type not supported. Please use images, videos, audio, or documents.'')]), [])"
proof -
  have v: "part_fieldname big_video_part = ''media''" "part_mimetype big_video_part \<in> set allowedMimes"
    "part_size big_video_part > 16 * 1024 * 1024"
    by (simp_all add: big_video_part_def allowedMimes_def)
  have t: "part_mimetype small_text_part \<notin> set allowedMimes" "part_fieldname small_text_part = ''media''"
    by (simp_all add: small_text_part_def allowedMimes_def)
  note V = oversized_or_unsupported_upload_rejected
             [of big_video_part sample_env "request_with media_body" "[]", THEN conjunct1]
  note S = oversized_or_unsupported_upload_rejected
             [of small_text_part sample_env "request_with media_body" "[]", THEN conjunct2]
  have a: "post_send_media sample_env (Some big_video_part) (request_with media_body) [] =
       (json 400 (JObj [(''error'', JStr ''File too large. Maximum size is 16MB.'')]), [])"
    using V v by blast
  have "snd (post_send_media sample_env (Some small_text_part) (request_with media_body) []) = []"
    using S[THEN conjunct1] t by blast
  moreover have "fst (post_send_media sample_env (Some small_text_part) (request_with media_body) []) =
          json 400 (JObj [(''error'',
            JStr ''File type not supported. Please use images, videos, audio, or documents.'')])"
    using S[THEN conjunct2] t by blast
  ultimately have b: "post_send_media sample_env (Some small_text_part) (request_with media_body) [] =
       (json 400 (JObj [(''error'',
          JStr ''File type not supported. Please use images, videos, audio, or documents.'')]), [])"
    by (simp add: prod_eq_iff)
  show ?thesis using v t a b by simp
qed

section \<open>Creating an account\<close>

lemma post_accounts_no_name:
  "\<not> truthy (req_body req ''name'') \<Longrightarrow>
   post_accounts env clock req tr = (json 400 (JObj [(''error'', JStr ''Name is required'')]), tr)"
  by (simp add: post_accounts_def run_defs)

lemma post_accounts_phone_exists:
  assumes "truthy (req_body req ''name'')" and "truthy (req_body req ''phone'')"
    and "env tr (select_account_by_phone (req_body req ''phone'')) = Returned (JArr (row # rows))"
  shows "post_accounts env clock req tr =
           (json 400 (JObj [(''error'', JStr ''Phone number already exists'')]),
            tr @ [select_account_by_phone (req_body req ''phone'')])"
  using assms by (simp add: post_accounts_def select_account_by_phone_def run_defs)

lemma post_accounts_inserts:
  assumes "truthy (req_body req ''name'')"
    and "\<not> truthy (req_body req ''phone'')
         \<or> env tr (select_account_by_phone (req_body req ''phone'')) = Returned (JArr [])"
  shows "\<exists>new. snd (post_accounts env clock req tr) =
           tr @ phone_lookup (req_body req ''phone'')
              @ [insert_account (req_body req ''name'') (req_body req ''phone'')] @ new"
  using assms
  by (auto simp: post_accounts_def select_account_by_phone_def insert_account_def phone_lookup_def
        run_defs split: reply.splits sum.splits)

lemma post_accounts_created:
  assumes "truthy (req_body req ''name'')"
    and "\<not> truthy (req_body req ''phone'')
         \<or> env tr (select_account_by_phone (req_body req ''phone'')) = Returned (JArr [])"
    and "env (tr @ phone_lookup (req_body req ''phone''))
             (insert_account (req_body req ''name'') (req_body req ''phone'')) = Returned result"
    and "get_prop result ''insertId'' = Inr accountId"
    and "env (tr @ phone_lookup (req_body req ''phone'')
                 @ [insert_account (req_body req ''name'') (req_body req ''phone'')])
             (log_account_created accountId) = Returned ack"
  shows "post_accounts env clock req tr =
           (json 201 (created_account accountId (req_body req ''name'') (req_body req ''phone'') clock),
            tr @ phone_lookup (req_body req ''phone'')
               @ [insert_account (req_body req ''name'') (req_body req ''phone''),
                  log_account_created accountId])"
  using assms
  by (auto simp: post_accounts_def select_account_by_phone_def insert_account_def phone_lookup_def
        log_account_created_def created_account_def run_defs)

text \<open>
  C7. POST /accounts: without a name the answer is 400 and no statement is issued; with a
  phone for which the lookup returns a row the answer is 400 "Phone number already exists"
  and only the lookup is issued; otherwise the INSERT of the account with status
  "disconnected" is issued, and when it and the INSERT of the activity log row with
  action "created" return, both are in the trace and the answer is 201 with the new account,
  status "disconnected" and \<^verbatim>\<open>qr_code\<close> null.
\<close>

theorem create_account_checks_then_inserts:
  "(\<not> truthy (req_body req ''name'') \<longrightarrow>
      post_accounts env clock req tr = (json 400 (JObj [(''error'', JStr ''Name is required'')]), tr))
   \<and> (truthy (req_body req ''name'') \<and> truthy (req_body req ''phone'')
       \<and> env tr (select_account_by_phone (req_body req ''phone'')) = Returned (JArr (row # rows))
    \<longrightarrow> post_accounts env clock req tr =
          (json 400 (JObj [(''error'', JStr ''Phone number already exists'')]),
           tr @ [select_account_by_phone (req_body req ''phone'')]))
   \<and> (truthy (req_body req ''name'')
       \<and> (\<not> truthy (req_body req ''phone'')
            \<or> env tr (select_account_by_phone (req_body req ''phone'')) = Returned (JArr []))
    \<longrightarrow> (\<exists>new. snd (post_accounts env clock req tr) =
               tr @ phone_lookup (req_body req ''phone'')
                  @ [insert_account (req_body req ''name'') (req_body req ''phone'')] @ new)
        \<and> (env (tr @ phone_lookup (req_body req ''phone''))
                (insert_account (req_body req ''name'') (req_body req ''phone'')) = Returned result
            \<and> get_prop result ''insertId'' = Inr accountId
            \<and> env (tr @ phone_lookup (req_body req ''phone'')
                       @ [insert_account (req_body req ''name'') (req_body req ''phone'')])
                   (log_account_created accountId) = Returned ack
          \<longrightarrow> post_accounts env clock req tr =
                (json 201 (created_account accountId (req_body req ''name'') (req_body req ''phone'') clock),
                 tr @ phone_lookup (req_body req ''phone'')
                    @ [insert_account (req_body req ''name'') (req_body req ''phone''),
                       log_account_created accountId])))"
proof (intro conjI impI)
  assume "\<not> truthy (req_body req ''name'')"
  then show "post_accounts env clock req tr = (json 400 (JObj [(''error'', JStr ''Name is required'')]), tr)"
    by (rule post_accounts_no_name)
next
  assume "truthy (req_body req ''name'') \<and> truthy (req_body req ''phone'')
       \<and> env tr (select_account_by_phone (req_body req ''phone'')) = Returned (JArr (row # rows))"
  then show "post_accounts env clock req tr =
          (json 400 (JObj [(''error'', JStr ''Phone number already exists'')]),
           tr @ [select_account_by_phone (req_body req ''phone'')])"
    using post_accounts_phone_exists by blast
next
  assume "truthy (req_body req ''name'')
       \<and> (\<not> truthy (req_body req ''phone'')
            \<or> env tr (select_account_by_phone (req_body req ''phone'')) = Returned (JArr []))"
  then show "\<exists>new. snd (post_accounts env clock req tr) =
               tr @ phone_lookup (req_body req ''phone'')
                  @ [insert_account (req_body req ''name'') (req_body req ''phone'')] @ new"
    using post_accounts_inserts by blast
next
  assume h: "truthy (req_body req ''name'')
       \<and> (\<not> truthy (req_body req ''phone'')
            \<or> env tr (select_account_by_phone (req_body req ''phone'')) = Returned (JArr []))"
    and r: "env (tr @ phone_lookup (req_body req ''phone''))
                (insert_account (req_body req ''name'') (req_body req ''phone'')) = Returned result
            \<and> get_prop result ''insertId'' = Inr accountId
            \<and> env (tr @ phone_lookup (req_body req ''phone'')
                       @ [insert_account (req_body req ''name'') (req_body req ''phone'')])
                   (log_account_created accountId) = Returned ack"
  show "post_accounts env clock req tr =
                (json 201 (created_account accountId (req_body req ''name'') (req_body req ''phone'') clock),
                 tr @ phone_lookup (req_body req ''phone'')
                    @ [insert_account (req_body req ''name'') (req_body req ''phone''),
                       log_account_created accountId])"
    using h r post_accounts_created[of req env tr result accountId ack clock] by blast
qed

theorem create_account_checks_then_inserts_witness:
  "\<not> truthy (req_body (request_with nameless_body) ''name'')
   \<and> post_accounts sample_env sample_clock (request_with nameless_body) [] =
       (json 400 (JObj [(''error'', JStr ''Name is required'')]), [])
   \<and> sample_env [] (select_account_by_phone (JStr ''6289876543210'')) = Returned (JArr [JObj [(''id'', JNum 1)]])
   \<and> post_accounts sample_env sample_clock (request_with new_account_body) [] =
       (json 400 (JObj [(''error'', JStr ''Phone number already exists'')]),
        [select_account_by_phone (JStr ''6289876543210'')])
   \<and> empty_env [] (select_account_by_phone (JStr ''6289876543210'')) = Returned (JArr [])
   \<and> post_accounts empty_env sample_clock (request_with new_account_body) [] =
       (json 201 (created_account (JNum 1) (JStr ''Sales'') (JStr ''6289876543210'') sample_clock),
        [select_account_by_phone (JStr ''6289876543210''),
         insert_account (JStr ''Sales'') (JStr ''6289876543210''),
         log_account_created (JNum 1)])
   \<and> get_prop_opt (created_account (JNum 1) (JStr ''Sales'') (JStr ''6289876543210'') sample_clock) ''status''
       = JStr ''disconnected''
   \<and> get_prop_opt (created_account (JNum 1) (JStr ''Sales'') (JStr ''6289876543210'') sample_clock) ''qr_code''
       = JNull"
proof -
  let ?new = "request_with new_account_body"
  have b: "req_body ?new ''name'' = JStr ''Sales''" "req_body ?new ''phone'' = JStr ''6289876543210''"
    by (simp_all add: request_with_def new_account_body_def)
  have n: "\<not> truthy (req_body (request_with nameless_body) ''name'')"
    by (simp add: request_with_def nameless_body_def no_fields_def)
  have a: "post_accounts sample_env sample_clock (request_with nameless_body) [] =
       (json 400 (JObj [(''error'', JStr ''Name is required'')]), [])"
    using create_account_checks_then_inserts
            [of "request_with nameless_body" sample_env sample_clock "[]", THEN conjunct1] n
    by blast
  have s: "sample_env [] (select_account_by_phone (JStr ''6289876543210'')) = Returned (JArr [JObj [(''id'', JNum 1)]])"
    by (simp add: select_account_by_phone_def)
  have c: "post_accounts sample_env sample_clock ?new [] =
       (json 400 (JObj [(''error'', JStr ''Phone number already exists'')]),
        [select_account_by_phone (JStr ''6289876543210'')])"
    using create_account_checks_then_inserts
            [of ?new sample_env sample_clock "[]" "JObj [(''id'', JNum 1)]" "[]",
             THEN conjunct2, THEN conjunct1] s b
    by simp
  have e: "empty_env [] (select_account_by_phone (JStr ''6289876543210'')) = Returned (JArr [])"
    by (simp add: select_account_by_phone_def)
  have d: "post_accounts empty_env sample_clock ?new [] =
       (json 201 (created_account (JNum 1) (JStr ''Sales'') (JStr ''6289876543210'') sample_clock),
        [select_account_by_phone (JStr ''6289876543210''),
         insert_account (JStr ''Sales'') (JStr ''6289876543210''),
         log_account_created (JNum 1)])"
    using create_account_checks_then_inserts
            [of ?new empty_env sample_clock "[]" _ _
                "JObj [(''insertId'', JNum 1), (''affectedRows'', JNum 0)]" "JNum 1"
                "JObj [(''insertId'', JNum 1), (''affectedRows'', JNum 0)]",
             THEN conjunct2, THEN conjunct2] e b
    by (simp add: phone_lookup_def select_account_by_phone_def insert_account_def
          log_account_created_def)
  show ?thesis using n a s c e d by (simp add: created_account_def)
qed

section \<open>Disconnecting without a lookup\<close>

text \<open>
  C8. POST /accounts/:id/disconnect issues no statement at all: it calls the service with
  the id and, whenever that call returns, answers "Account disconnected successfully",
  whether or not an account has that id. The connect, fresh-connect and force-reconnect
  routes look the account up first, and when the lookup returns no row they answer 404
  "Account not found" having issued nothing but the lookup: no service call, no write.
\<close>

theorem disconnect_skips_account_lookup:
  "snd (post_disconnect env req tr) = tr @ [DisconnectAccount (req_params req ''id'')]
   \<and> (env tr (DisconnectAccount (req_params req ''id'')) = Returned v \<longrightarrow>
        fst (post_disconnect env req tr) =
          json 200 (JObj [(''message'', JStr ''Account disconnected successfully'')]))
   \<and> (env tr (select_account_by_id (req_params req ''id'')) = Returned (JArr []) \<longrightarrow>
        post_connect env req tr =
          (json 404 (JObj [(''error'', JStr ''Account not found'')]),
           tr @ [select_account_by_id (req_params req ''id'')])
        \<and> post_fresh_connect env req tr =
          (json 404 (JObj [(''error'', JStr ''Account not found'')]),
           tr @ [select_account_by_id (req_params req ''id'')])
        \<and> post_force_reconnect env req tr =
          (json 404 (JObj [(''error'', JStr ''Account not found'')]),
           tr @ [select_account_by_id (req_params req ''id'')]))"
  by (auto simp: post_disconnect_def post_connect_def post_fresh_connect_def post_force_reconnect_def
        select_account_by_id_def error_500_def run_defs split: reply.splits)

theorem disconnect_skips_account_lookup_witness:
  "empty_env [] (DisconnectAccount (JStr ''999'')) = Returned JUndefined
   \<and> empty_env [] (select_account_by_id (JStr ''999'')) = Returned (JArr [])
   \<and> post_disconnect empty_env (request_for ''999'') [] =
       (json 200 (JObj [(''message'', JStr ''Account disconnected successfully'')]),
        [DisconnectAccount (JStr ''999'')])
   \<and> post_connect empty_env (request_for ''999'') [] =
       (json 404 (JObj [(''error'', JStr ''Account not found'')]), [select_account_by_id (JStr ''999'')])
   \<and> post_fresh_connect empty_env (request_for ''999'') [] =
       (json 404 (JObj [(''error'', JStr ''Account not found'')]), [select_account_by_id (JStr ''999'')])
   \<and> post_force_reconnect empty_env (request_for ''999'') [] =
       (json 404 (JObj [(''error'', JStr ''Account not found'')]), [select_account_by_id (JStr ''999'')])"
proof -
  have i: "req_params (request_for ''999'') ''id'' = JStr ''999''"
    by (simp add: request_for_def)
  have d: "empty_env [] (DisconnectAccount (JStr ''999'')) = Returned JUndefined"
    by simp
  have s: "empty_env [] (select_account_by_id (JStr ''999'')) = Returned (JArr [])"
    by (simp add: select_account_by_id_def)
  note T = disconnect_skips_account_lookup[of empty_env "request_for ''999''" "[]" JUndefined]
  have "snd (post_disconnect empty_env (request_for ''999'') []) = [DisconnectAccount (JStr ''999'')]"
    using T[THEN conjunct1] i by simp
  moreover have "fst (post_disconnect empty_env (request_for ''999'') []) =
          json 200 (JObj [(''message'', JStr ''Account disconnected successfully'')])"
    using T[THEN conjunct2, THEN conjunct1] i d by simp
  ultimately have a: "post_disconnect empty_env (request_for ''999'') [] =
       (json 200 (JObj [(''message'', JStr ''Account disconnected successfully'')]),
        [DisconnectAccount (JStr ''999'')])"
    by (simp add: prod_eq_iff)
  show ?thesis using T[THEN conjunct2, THEN conjunct2] i d s a by simp
qed

section \<open>Phones of contact rows\<close>

lemma every_route_writes_clean_phones:
  "\<exists>new. snd (handle env rt route part req tr) = tr @ new \<and> list_all contact_phone_clean new"
proof -
  have "emits contact_phone_clean (handle env rt route part req)"
    by (rule emits_weaken[OF handle_safe]) (simp add: safe_def)
  then show ?thesis unfolding emits_def by blast
qed

lemma post_contacts_strips:
  assumes "truthy (req_body req ''name'')" and "req_body req ''phone'' = JStr p" and "p \<noteq> []"
  shows "(\<exists>new. snd (post_contacts env req tr) =
            tr @ [insert_contact (req_body req ''name'') (strip_non_digits p) (req_body req ''group_name'')] @ new)
         \<and> (env tr (insert_contact (req_body req ''name'') (strip_non_digits p) (req_body req ''group_name''))
               = Returned result
            \<and> get_prop result ''insertId'' = Inr contact_id
          \<longrightarrow> fst (post_contacts env req tr) =
                json 201 (JObj [(''id'', contact_id),
                                (''name'', req_body req ''name''),
                                (''phone'', JStr (strip_non_digits p)),
                                (''group_name'', req_body req ''group_name''),
                                (''message'', JStr ''Contact added successfully'')]))"
  using assms
  by (auto simp: post_contacts_def insert_contact_def run_defs split: reply.splits sum.splits)

lemma put_contact_strips:
  assumes "truthy (req_body req ''name'')" and "req_body req ''phone'' = JStr p" and "p \<noteq> []"
  shows "snd (put_contact env req tr) =
           tr @ [update_contact (req_params req ''id'') (req_body req ''name'') (strip_non_digits p)
                   (req_body req ''group_name'') (req_body req ''is_active'')]"
  using assms
  by (auto simp: put_contact_def update_contact_def run_defs split: reply.splits sum.splits)

lemma contacts_bulk_step_strips:
  assumes "get_prop contact ''name'' = Inr name" and "truthy name"
    and "get_prop contact ''phone'' = Inr phone" and "truthy phone"
    and "get_prop contact ''group_name'' = Inr group_name"
    and "call_toString phone = Inr s"
  shows "snd (contacts_bulk_step env stringify contact st tr) =
           tr @ [insert_contact name (strip_non_digits s) group_name]"
  using assms
  by (auto simp: contacts_bulk_step_def insert_contact_def run_defs split: reply.splits sum.splits)

text \<open>
  C9, as amended. Every statement any route issues that writes a contact row writes a
  phone that is a string of decimal digits only. POST /contacts, each item of
  POST /contacts/bulk and PUT /contacts/:id write the supplied phone with every non-digit
  character removed, and the POST /contacts response echoes the cleaned phone.
\<close>

theorem contact_phones_are_digits:
  "(\<exists>new. snd (handle env rt route part req tr) = tr @ new \<and> list_all contact_phone_clean new)
   \<and> strip_non_digits p = filter is_digit p
   \<and> (truthy (req_body req ''name'') \<and> req_body req ''phone'' = JStr p \<and> p \<noteq> [] \<longrightarrow>
        (\<exists>new. snd (post_contacts env req tr) =
            tr @ [insert_contact (req_body req ''name'') (strip_non_digits p) (req_body req ''group_name'')] @ new)
        \<and> (env tr (insert_contact (req_body req ''name'') (strip_non_digits p) (req_body req ''group_name''))
               = Returned result
            \<and> get_prop result ''insertId'' = Inr contact_id
          \<longrightarrow> fst (post_contacts env req tr) =
                json 201 (JObj [(''id'', contact_id),
                                (''name'', req_body req ''name''),
                                (''phone'', JStr (strip_non_digits p)),
                                (''group_name'', req_body req ''group_name''),
                                (''message'', JStr ''Contact added successfully'')]))
        \<and> snd (put_contact env req tr) =
            tr @ [update_contact (req_params req ''id'') (req_body req ''name'') (strip_non_digits p)
                    (req_body req ''group_name'') (req_body req ''is_active'')])
   \<and> (get_prop contact ''name'' = Inr name \<and> truthy name
       \<and> get_prop contact ''phone'' = Inr phone \<and> truthy phone
       \<and> get_prop contact ''group_name'' = Inr group_name
       \<and> call_toString phone = Inr s
     \<longrightarrow> snd (contacts_bulk_step env stringify contact st tr) =
           tr @ [insert_contact name (strip_non_digits s) group_name])"
proof (intro conjI impI)
  show "\<exists>new. snd (handle env rt route part req tr) = tr @ new \<and> list_all contact_phone_clean new"
    by (rule every_route_writes_clean_phones)
next
  show "strip_non_digits p = filter is_digit p"
    by (simp add: strip_non_digits_def)
next
  assume h: "truthy (req_body req ''name'') \<and> req_body req ''phone'' = JStr p \<and> p \<noteq> []"
  then show "\<exists>new. snd (post_contacts env req tr) =
            tr @ [insert_contact (req_body req ''name'') (strip_non_digits p) (req_body req ''group_name'')] @ new"
    using post_contacts_strips by blast
  show "snd (put_contact env req tr) =
            tr @ [update_contact (req_params req ''id'') (req_body req ''name'') (strip_non_digits p)
                    (req_body req ''group_name'') (req_body req ''is_active'')]"
    using h put_contact_strips by blast
  assume "env tr (insert_contact (req_body req ''name'') (strip_non_digits p) (req_body req ''group_name''))
               = Returned result
            \<and> get_prop result ''insertId'' = Inr contact_id"
  then show "fst (post_contacts env req tr) =
                json 201 (JObj [(''id'', contact_id),
                                (''name'', req_body req ''name''),
                                (''phone'', JStr (strip_non_digits p)),
                                (''group_name'', req_body req ''group_name''),
                                (''message'', JStr ''Contact added successfully'')])"
    using h post_contacts_strips[of req p env tr result contact_id] by blast
next
  assume "get_prop contact ''name'' = Inr name \<and> truthy name
       \<and> get_prop contact ''phone'' = Inr phone \<and> truthy phone
       \<and> get_prop contact ''group_name'' = Inr group_name
       \<and> call_toString phone = Inr s"
  then show "snd (contacts_bulk_step env stringify contact st tr) =
           tr @ [insert_contact name (strip_non_digits s) group_name]"
    using contacts_bulk_step_strips by blast
qed

text \<open>The claim as stated fails for the second POST route: the response of the bulk import
  carries counts and error texts only, no phone.\<close>

theorem contact_phones_are_digits_counterexample:
  "post_contacts_bulk sample_env sample_stringify (request_with contacts_bulk_body) [] =
     (json 200 (JObj [(''message'', JStr ''Bulk import completed''),
                      (''success_count'', JNum 1),
                      (''error_count'', JNum 0),
                      (''errors'', JArr [])]),
      [insert_contact (JStr ''Ana'') ''62812345'' JUndefined])"
  by (simp add: post_contacts_bulk_def contacts_bulk_step_def contacts_bulk_body_def
        insert_contact_def strip_non_digits_def is_digit_def js_or_def run_defs sample_defs)

theorem contact_phones_are_digits_witness:
  "truthy (req_body (request_with contact_body) ''name'')
   \<and> req_body (request_with contact_body) ''phone'' = JStr ''+62 812-345''
   \<and> strip_non_digits ''+62 812-345'' = ''62812345''
   \<and> post_contacts sample_env (request_with contact_body) [] =
       (json 201 (JObj [(''id'', JNum 7),
                        (''name'', JStr ''Ana''),
                        (''phone'', JStr ''62812345''),
                        (''group_name'', JUndefined),
                        (''message'', JStr ''Contact added successfully'')]),
        [insert_contact (JStr ''Ana'') ''62812345'' JUndefined])
   \<and> snd (put_contact sample_env contact_update_request []) =
       [update_contact (JStr ''5'') (JStr ''Ana'') ''62812345'' JUndefined JUndefined]
   \<and> snd (contacts_bulk_step sample_env sample_stringify
            (JObj [(''name'', JStr ''Ana''), (''phone'', JNum 62812345)])
            \<lparr>successCount = 0, errorCount = 0, errors = []\<rparr> []) =
       [insert_contact (JStr ''Ana'') (strip_non_digits (show_int 62812345)) JUndefined]"
proof -
  let ?req = "request_with contact_body"
  have b: "req_body ?req ''name'' = JStr ''Ana''" "req_body ?req ''phone'' = JStr ''+62 812-345''"
    "req_body ?req ''group_name'' = JUndefined"
    by (simp_all add: request_with_def contact_body_def no_fields_def)
  have u: "req_body contact_update_request ''name'' = JStr ''Ana''"
    "req_body contact_update_request ''phone'' = JStr ''+62 812-345''"
    "req_body contact_update_request ''group_name'' = JUndefined"
    "req_body contact_update_request ''is_active'' = JUndefined"
    "req_params contact_update_request ''id'' = JStr ''5''"
    by (simp_all add: contact_update_request_def contact_body_def no_fields_def)
  have s: "strip_non_digits ''+62 812-345'' = ''62812345''"
    by (simp add: strip_non_digits_def is_digit_def)
  note P = contact_phones_are_digits
             [of sample_env sample_runtime POST_contacts None ?req "[]" "''+62 812-345''"
                 "JObj [(''insertId'', JNum 7), (''affectedRows'', JNum 1)]" "JNum 7",
              THEN conjunct2, THEN conjunct2, THEN conjunct1]
  have r: "sample_env [] (insert_contact (JStr ''Ana'') ''62812345'' JUndefined) =
             Returned (JObj [(''insertId'', JNum 7), (''affectedRows'', JNum 1)])"
    by (simp add: insert_contact_def)
  have p1: "fst (post_contacts sample_env ?req []) =
       json 201 (JObj [(''id'', JNum 7),
                        (''name'', JStr ''Ana''),
                        (''phone'', JStr ''62812345''),
                        (''group_name'', JUndefined),
                        (''message'', JStr ''Contact added successfully'')])"
    using P b s r by simp
  have p2: "snd (post_contacts sample_env ?req []) = [insert_contact (JStr ''Ana'') ''62812345'' JUndefined]"
    using b s r by (simp add: post_contacts_def insert_contact_def run_defs)
  have p: "post_contacts sample_env ?req [] =
       (json 201 (JObj [(''id'', JNum 7),
                        (''name'', JStr ''Ana''),
                        (''phone'', JStr ''62812345''),
                        (''group_name'', JUndefined),
                        (''message'', JStr ''Contact added successfully'')]),
        [insert_contact (JStr ''Ana'') ''62812345'' JUndefined])"
    using p1 p2 by (simp add: prod_eq_iff)
  note U = contact_phones_are_digits
             [of sample_env sample_runtime PUT_contacts_id None contact_update_request "[]" "''+62 812-345''",
              THEN conjunct2, THEN conjunct2, THEN conjunct1]
  have q: "snd (put_contact sample_env contact_update_request []) =
       [update_contact (JStr ''5'') (JStr ''Ana'') ''62812345'' JUndefined JUndefined]"
    using U u s by simp
  note B = contact_phones_are_digits
             [where env = sample_env and stringify = sample_stringify and tr = "[]"
                and contact = "JObj [(''name'', JStr ''Ana''), (''phone'', JNum 62812345)]"
                and name = "JStr ''Ana''" and phone = "JNum 62812345" and group_name = JUndefined
                and s = "show_int 62812345"
                and st = "\<lparr>successCount = 0, errorCount = 0, errors = []\<rparr>",
              THEN conjunct2, THEN conjunct2, THEN conjunct2]
  have w: "snd (contacts_bulk_step sample_env sample_stringify
            (JObj [(''name'', JStr ''Ana''), (''phone'', JNum 62812345)])
            \<lparr>successCount = 0, errorCount = 0, errors = []\<rparr> []) =
       [insert_contact (JStr ''Ana'') (strip_non_digits (show_int 62812345)) JUndefined]"
    using B by simp
  show ?thesis using b s p q w by simp
qed

section \<open>Rows of the messages table\<close>

lemma replies_append: "replies env tr (xs @ ys) = replies env tr xs @ replies env (tr @ xs) ys"
  by (induction xs arbitrary: tr) simp_all

lemma delivered_append: "delivered env tr (xs @ ys) = delivered env tr xs @ delivered env (tr @ xs) ys"
  by (simp add: delivered_def replies_append)

lemma send_bulk_step_rows:
  "\<exists>results' new. send_bulk_step env f m n results tr = (Inr results', tr @ new)
     \<and> filter writes_messages new = map (\<lambda>n. Query (insert_message_text f n m)) (delivered env tr new)"
  by (auto simp: send_bulk_step_def try_catch_def io_bind_def call_def io_return_def lift_def
       insert_message_text_def delivered_def
       split: prod.splits sum.splits reply.splits)

lemma send_bulk_loop_rows:
  "\<exists>results' new. send_bulk_loop env f m ns results tr = (Inr results', tr @ new)
     \<and> filter writes_messages new = map (\<lambda>n. Query (insert_message_text f n m)) (delivered env tr new)"
proof (induction ns arbitrary: results tr)
  case Nil
  then show ?case by (simp add: io_return_def delivered_def)
next
  case (Cons n ns)
  obtain results1 new1 where s:
    "send_bulk_step env f m n results tr = (Inr results1, tr @ new1)"
    "filter writes_messages new1 = map (\<lambda>n. Query (insert_message_text f n m)) (delivered env tr new1)"
    using send_bulk_step_rows by blast
  obtain results2 new2 where l:
    "send_bulk_loop env f m ns results1 (tr @ new1) = (Inr results2, (tr @ new1) @ new2)"
    "filter writes_messages new2 =
       map (\<lambda>n. Query (insert_message_text f n m)) (delivered env (tr @ new1) new2)"
    using Cons.IH by blast
  have "send_bulk_loop env f m (n # ns) results tr = (Inr results2, tr @ (new1 @ new2))"
    using s(1) l(1) by (simp add: io_bind_def)
  moreover have "filter writes_messages (new1 @ new2) =
       map (\<lambda>n. Query (insert_message_text f n m)) (delivered env tr (new1 @ new2))"
    using s(2) l(2) by (simp add: delivered_append)
  ultimately show ?case by blast
qed

lemma post_send_bulk_rows:
  assumes "send_bulk_passes req"
  shows "\<exists>new. snd (post_send_bulk env req tr) = tr @ new
           \<and> filter writes_messages new =
               map (\<lambda>n. Query (insert_message_text (req_body req ''fromAccountId'') n (req_body req ''message'')))
                 (delivered env tr new)"
proof -
  obtain results new where l:
    "send_bulk_loop env (req_body req ''fromAccountId'') (req_body req ''message'')
       (elements (req_body req ''recipients'')) [] tr = (Inr results, tr @ new)"
    "filter writes_messages new =
       map (\<lambda>n. Query (insert_message_text (req_body req ''fromAccountId'') n (req_body req ''message'')))
         (delivered env tr new)"
    using send_bulk_loop_rows by blast
  have "snd (post_send_bulk env req tr) = tr @ new"
    using assms l(1) isArray_truthy[of "req_body req ''recipients''"]
    by (simp add: post_send_bulk_def post_send_bulk_try_def catch_respond_def io_bind_def
         lift_def io_return_def send_bulk_passes_def Let_def)
  then show ?thesis using l(2) by blast
qed

lemma post_send_writes_no_message_row:
  "\<exists>new. snd (post_send env req tr) = tr @ new \<and> list_all (\<lambda>e. \<not> writes_messages e) new"
proof -
  have "emits (\<lambda>e. \<not> writes_messages e) (post_send env req)"
    by (rule emits_weaken[OF post_send_quiet]) (simp add: quiet_def)
  then show ?thesis unfolding emits_def by blast
qed

lemma post_send_success_trace:
  "get_prop_opt (res_body (fst (post_send env req tr))) ''success'' = JBool True \<Longrightarrow>
   \<exists>text. snd (post_send env req tr) =
     tr @ [select_connected_account (req_body req ''fromAccountId''),
           SendTextMessage (req_body req ''fromAccountId'') (req_body req ''toNumber'') (req_body req ''message''),
           log_message_sent (req_body req ''fromAccountId'') text]"
  by (auto simp: post_send_def post_send_try_def select_connected_account_def log_message_sent_def
        run_defs split: reply.splits sum.splits if_splits)

lemma other_routes_write_no_message_row:
  assumes "route \<noteq> POST_send_bulk" and "route \<noteq> POST_send_bulk_media"
  shows "\<exists>new. snd (handle env rt route part req tr) = tr @ new \<and> list_all (\<lambda>e. \<not> writes_messages e) new"
proof -
  have "emits (\<lambda>e. \<not> writes_messages e) (handle env rt route part req)"
    by (rule emits_weaken[OF handle_quiet[OF assms]]) (simp add: quiet_def)
  then show ?thesis unfolding emits_def by blast
qed

text \<open>
  C10. POST /send issues no statement that writes the messages table; when it succeeds,
  its only statement after the send is the INSERT of one activity log row. POST /send-bulk,
  for a request that passes validation, issues one INSERT into messages, with status
  "sent" and the recipient as \<^verbatim>\<open>to_number\<close>, per recipient whose send returned, in
  order, and no other write of that table. No route other than the two bulk send routes
  issues a statement that writes the messages table.
\<close>

theorem messages_written_by_bulk_routes_only:
  "(\<exists>new. snd (post_send env req tr) = tr @ new \<and> list_all (\<lambda>e. \<not> writes_messages e) new)
   \<and> (get_prop_opt (res_body (fst (post_send env req tr))) ''success'' = JBool True \<longrightarrow>
        (\<exists>text. snd (post_send env req tr) =
           tr @ [select_connected_account (req_body req ''fromAccountId''),
                 SendTextMessage (req_body req ''fromAccountId'') (req_body req ''toNumber'')
                   (req_body req ''message''),
                 log_message_sent (req_body req ''fromAccountId'') text]))
   \<and> (send_bulk_passes req \<longrightarrow>
        (\<exists>new. snd (post_send_bulk env req tr) = tr @ new
           \<and> filter writes_messages new =
               map (\<lambda>n. Query (insert_message_text (req_body req ''fromAccountId'') n (req_body req ''message'')))
                 (delivered env tr new)))
   \<and> inserted_column (Query (insert_message_text f n m)) ''status'' = Some (Param (JStr ''sent''))
   \<and> inserted_column (Query (insert_message_text f n m)) ''to_number'' = Some (Param n)
   \<and> (route \<noteq> POST_send_bulk \<and> route \<noteq> POST_send_bulk_media \<longrightarrow>
        (\<exists>new. snd (handle env rt route part req tr) = tr @ new
           \<and> list_all (\<lambda>e. \<not> writes_messages e) new))"
proof (intro conjI impI)
  show "\<exists>new. snd (post_send env req tr) = tr @ new \<and> list_all (\<lambda>e. \<not> writes_messages e) new"
    by (rule post_send_writes_no_message_row)
next
  assume "get_prop_opt (res_body (fst (post_send env req tr))) ''success'' = JBool True"
  then show "\<exists>text. snd (post_send env req tr) =
           tr @ [select_connected_account (req_body req ''fromAccountId''),
                 SendTextMessage (req_body req ''fromAccountId'') (req_body req ''toNumber'')
                   (req_body req ''message''),
                 log_message_sent (req_body req ''fromAccountId'') text]"
    by (rule post_send_success_trace)
next
  assume "send_bulk_passes req"
  then show "\<exists>new. snd (post_send_bulk env req tr) = tr @ new
           \<and> filter writes_messages new =
               map (\<lambda>n. Query (insert_message_text (req_body req ''fromAccountId'') n (req_body req ''message'')))
                 (delivered env tr new)"
    by (rule post_send_bulk_rows)
next
  show "inserted_column (Query (insert_message_text f n m)) ''status'' = Some (Param (JStr ''sent''))"
    by (simp add: insert_message_text_def)
  show "inserted_column (Query (insert_message_text f n m)) ''to_number'' = Some (Param n)"
    by (simp add: insert_message_text_def)
next
  assume "route \<noteq> POST_send_bulk \<and> route \<noteq> POST_send_bulk_media"
  then show "\<exists>new. snd (handle env rt route part req tr) = tr @ new
           \<and> list_all (\<lambda>e. \<not> writes_messages e) new"
    using other_routes_write_no_message_row by blast
qed

theorem messages_written_by_bulk_routes_only_witness:
  "get_prop_opt (res_body (fst (post_send sample_env (request_with send_body) []))) ''success'' = JBool True
   \<and> snd (post_send sample_env (request_with send_body) []) =
       [select_connected_account (JNum 1),
        SendTextMessage (JNum 1) (JStr ''6289876543210'') (JStr ''hello''),
        log_message_sent (JNum 1) ''6289876543210'']
   \<and> send_bulk_passes (request_with bulk_body)
   \<and> snd (post_send_bulk sample_env (request_with bulk_body) []) =
       [SendTextMessage (JNum 1) (JStr ''6281234567890'') (JStr ''hello''),
        SendTextMessage (JNum 1) (JStr ''6289876543210'') (JStr ''hello''),
        Query (insert_message_text (JNum 1) (JStr ''6289876543210'') (JStr ''hello''))]
   \<and> delivered sample_env [] (snd (post_send_bulk sample_env (request_with bulk_body) []))
       = [JStr ''6289876543210'']
   \<and> filter writes_messages (snd (post_send_bulk sample_env (request_with bulk_body) [])) =
       [Query (insert_message_text (JNum 1) (JStr ''6289876543210'') (JStr ''hello''))]
   \<and> POST_contacts \<noteq> POST_send_bulk \<and> POST_contacts \<noteq> POST_send_bulk_media
   \<and> (\<exists>new. snd (handle sample_env sample_runtime POST_contacts None (request_with contact_body) []) = new
         \<and> list_all (\<lambda>e. \<not> writes_messages e) new)"
proof -
  let ?req = "request_with send_body" and ?bulk = "request_with bulk_body"
  have b: "req_body ?req ''fromAccountId'' = JNum 1" "req_body ?req ''toNumber'' = JStr ''6289876543210''"
    "req_body ?req ''message'' = JStr ''hello''"
    by (simp_all add: request_with_def send_body_def)
  have k: "req_body ?bulk ''fromAccountId'' = JNum 1" "req_body ?bulk ''message'' = JStr ''hello''"
    by (simp_all add: request_with_def bulk_body_def)
  have ok: "get_prop_opt (res_body (fst (post_send sample_env ?req []))) ''success'' = JBool True"
    by (simp add: post_send_def post_send_try_def request_with_def send_body_def run_defs)
  note S = messages_written_by_bulk_routes_only
             [of sample_env ?req "[]" _ _ _ POST_contacts sample_runtime None]
  have "\<exists>text. snd (post_send sample_env ?req []) =
           [] @ [select_connected_account (req_body ?req ''fromAccountId''),
                 SendTextMessage (req_body ?req ''fromAccountId'') (req_body ?req ''toNumber'')
                   (req_body ?req ''message''),
                 log_message_sent (req_body ?req ''fromAccountId'') text]"
    using S[THEN conjunct2, THEN conjunct1] ok by blast
  moreover have "snd (post_send sample_env ?req []) \<noteq> [] \<and>
      last (snd (post_send sample_env ?req [])) = log_message_sent (JNum 1) ''6289876543210''"
    by (simp add: post_send_def post_send_try_def request_with_def send_body_def
          log_message_sent_def run_defs)
  ultimately have t: "snd (post_send sample_env ?req []) =
       [select_connected_account (JNum 1),
        SendTextMessage (JNum 1) (JStr ''6289876543210'') (JStr ''hello''),
        log_message_sent (JNum 1) ''6289876543210'']"
    using b by auto
  have p: "send_bulk_passes ?bulk"
    by (simp add: send_bulk_passes_def request_with_def bulk_body_def no_fields_def phone_defs)
  have tr: "snd (post_send_bulk sample_env ?bulk []) =
       [SendTextMessage (JNum 1) (JStr ''6281234567890'') (JStr ''hello''),
        SendTextMessage (JNum 1) (JStr ''6289876543210'') (JStr ''hello''),
        Query (insert_message_text (JNum 1) (JStr ''6289876543210'') (JStr ''hello''))]"
    by (simp add: post_send_bulk_def post_send_bulk_try_def send_bulk_step_def request_with_def
          bulk_body_def no_fields_def insert_message_text_def result_key_id_def phone_defs run_defs)
  have d: "delivered sample_env [] (snd (post_send_bulk sample_env ?bulk [])) = [JStr ''6289876543210'']"
    by (simp add: tr delivered_def insert_message_text_def)
  note B = messages_written_by_bulk_routes_only
             [of sample_env ?bulk "[]" _ _ _ POST_contacts sample_runtime None]
  have "\<exists>new. snd (post_send_bulk sample_env ?bulk []) = [] @ new
           \<and> filter writes_messages new =
               map (\<lambda>n. Query (insert_message_text (req_body ?bulk ''fromAccountId'') n (req_body ?bulk ''message'')))
                 (delivered sample_env [] new)"
    using B[THEN conjunct2, THEN conjunct2, THEN conjunct1] p by blast
  then have w: "filter writes_messages (snd (post_send_bulk sample_env ?bulk [])) =
       [Query (insert_message_text (JNum 1) (JStr ''6289876543210'') (JStr ''hello''))]"
    using d k by auto
  have r: "POST_contacts \<noteq> POST_send_bulk \<and> POST_contacts \<noteq> POST_send_bulk_media"
    by simp
  note R = messages_written_by_bulk_routes_only
             [of sample_env "request_with contact_body" "[]" _ _ _ POST_contacts sample_runtime None]
  have h: "\<exists>new. snd (handle sample_env sample_runtime POST_contacts None (request_with contact_body) []) = new
         \<and> list_all (\<lambda>e. \<not> writes_messages e) new"
    using R[THEN conjunct2, THEN conjunct2, THEN conjunct2, THEN conjunct2, THEN conjunct2] r
    by simp
  show ?thesis using ok t p tr d w r h by simp
qed

end
